theory Spec2Isabelle
  imports Complex_Main
begin

section \<open>SpendWise: expense submission, policy evaluation and review\<close>

text \<open>
  A shallow embedding of the decision logic of the SpendWise application: the Express
  handlers of \<^verbatim>\<open>server.js\<close> over the SQLite tables \<^verbatim>\<open>expenses\<close>, \<^verbatim>\<open>policies\<close> and
  \<^verbatim>\<open>conversion_rates\<close>, and the client functions \<^verbatim>\<open>detectFraud\<close> (utils/ai.ts),
  \<^verbatim>\<open>addExpense\<close> (ExpenseContext), \<^verbatim>\<open>validateForm\<close>/\<^verbatim>\<open>handleSubmit\<close> (AddExpense) and
  \<^verbatim>\<open>convertCurrency\<close>/\<^verbatim>\<open>fetchCurrencyRates\<close> (utils/currency.ts).

  A JavaScript number is a finite IEEE double, modelled as the rational it denotes;
  sums, differences, products and quotients are rounded to the nearest double, and
  comparisons are exact. A database row is a record, a table a list of rows (or a map
  where the table has a primary key that the handlers look up), and every handler takes
  the database and returns the new database with its HTTP response.
\<close>

subsection \<open>JavaScript values\<close>

text \<open>
  A field of a JSON body or a column of a row may be absent (\<^verbatim>\<open>undefined\<close>, \<^verbatim>\<open>null\<close>, SQL
  NULL): it is an \<open>option\<close>. \<^verbatim>\<open>!s\<close> holds of a missing or empty string, \<^verbatim>\<open>!n\<close> of a
  missing or zero number.
\<close>

definition falsy_str :: "string option \<Rightarrow> bool" where
  "falsy_str s = (case s of None \<Rightarrow> True | Some v \<Rightarrow> v = [])"

definition falsy_num :: "rat option \<Rightarrow> bool" where
  "falsy_num n = (case n of None \<Rightarrow> True | Some v \<Rightarrow> v = 0)"

text \<open>\<^verbatim>\<open>s || null\<close>, \<^verbatim>\<open>s || d\<close> and \<^verbatim>\<open>n || d\<close>.\<close>

definition or_null :: "string option \<Rightarrow> string option" where
  "or_null s = (if falsy_str s then None else s)"

definition or_str :: "string option \<Rightarrow> string \<Rightarrow> string" where
  "or_str s d = (case s of None \<Rightarrow> d | Some v \<Rightarrow> if v = [] then d else v)"

definition or_num :: "rat option \<Rightarrow> rat \<Rightarrow> rat" where
  "or_num n d = (case n of None \<Rightarrow> d | Some v \<Rightarrow> if v = 0 then d else v)"

text \<open>A nullable string inside a template literal: \<^verbatim>\<open>`${null}`\<close> is \<^verbatim>\<open>null\<close>.\<close>

definition template :: "string option \<Rightarrow> string" where
  "template s = (case s of None \<Rightarrow> ''null'' | Some v \<Rightarrow> v)"

text \<open>
  Comparison of two TEXT values in SQLite (BINARY collation, \<^verbatim>\<open>memcmp\<close>): bytewise, a
  proper prefix being smaller.
\<close>

fun text_le :: "string \<Rightarrow> string \<Rightarrow> bool" where
  "text_le [] ys = True"
| "text_le (x # xs) [] = False"
| "text_le (x # xs) (y # ys) =
     (if x = y then text_le xs ys else (of_char x :: nat) < of_char y)"

text \<open>\<^verbatim>\<open>String.prototype.includes\<close> and \<^verbatim>\<open>toLowerCase\<close> (on ASCII letters).\<close>

fun starts_with :: "string \<Rightarrow> string \<Rightarrow> bool" where
  "starts_with s [] = True"
| "starts_with [] (k # ks) = False"
| "starts_with (c # cs) (k # ks) = (c = k \<and> starts_with cs ks)"

fun includes' :: "string \<Rightarrow> string \<Rightarrow> bool" where
  "includes' [] k = (k = [])"
| "includes' (c # cs) k = (starts_with (c # cs) k \<or> includes' cs k)"

definition lower_char :: "char \<Rightarrow> char" where
  "lower_char c =
     (let n = (of_char c :: nat) in if 65 \<le> n \<and> n \<le> 90 then char_of (n + 32) else c)"

definition toLowerCase :: "string \<Rightarrow> string" where
  "toLowerCase s = map lower_char s"

subsection \<open>Arithmetic on doubles\<close>

text \<open>
  The number of binary digits of a positive integer, and the integer part of the
  logarithm to base 2 of a positive rational.
\<close>

function bitlen :: "int \<Rightarrow> int" where
  "bitlen n = (if n \<le> 0 then 0 else 1 + bitlen (n div 2))"
  by pat_completeness auto
termination
  by (relation "measure nat") auto

definition pow2 :: "int \<Rightarrow> rat" where
  "pow2 k = (if 0 \<le> k then 2 ^ nat k else 1 / 2 ^ nat (- k))"

definition ilog2 :: "rat \<Rightarrow> int" where
  "ilog2 x = (if 1 \<le> x then bitlen \<lfloor>x\<rfloor> - 1 else - bitlen (\<lceil>1 / x\<rceil> - 1))"

definition round_half_even :: "rat \<Rightarrow> int" where
  "round_half_even x =
     (let n = \<lfloor>x\<rfloor>; r = x - of_int n
      in if r < 1 / 2 then n else if 1 / 2 < r then n + 1 else if even n then n else n + 1)"

text \<open>
  \<open>fl x\<close> is the double nearest to \<open>x\<close>, a tie going to the even significand: 53
  binary digits, and multiples of \<^verbatim>\<open>2^-1074\<close> below the normal range. It is the value
  of a decimal literal and the rounding of every arithmetic operation. The exponent has
  no upper bound here: a result of magnitude \<^verbatim>\<open>2^1024\<close> or more is the one that
  JavaScript replaces by an infinity.
\<close>

definition fl :: "rat \<Rightarrow> rat" where
  "fl x =
     (if x = 0 then 0
      else
        (let u = pow2 (max (ilog2 \<bar>x\<bar> - 52) (- 1074))
         in sgn x * of_int (round_half_even (\<bar>x\<bar> / u)) * u))"

definition js_add :: "rat \<Rightarrow> rat \<Rightarrow> rat" where
  "js_add x y = fl (x + y)"

definition js_sub :: "rat \<Rightarrow> rat \<Rightarrow> rat" where
  "js_sub x y = fl (x - y)"

definition js_mul :: "rat \<Rightarrow> rat \<Rightarrow> rat" where
  "js_mul x y = fl (x * y)"

text \<open>
  A division: by zero it gives an infinity or NaN, which is \<open>None\<close> here; the product
  with such a value is one again.
\<close>

definition js_div :: "rat \<Rightarrow> rat \<Rightarrow> rat option" where
  "js_div a b = (if b = 0 then None else Some (fl (a / b)))"

subsection \<open>Time values and the calendar of ECMAScript's Date\<close>

text \<open>
  A valid Date is its time value, the milliseconds since 1970-01-01T00:00:00Z; an
  Invalid Date is \<open>None\<close> where one can arise. The day and year arithmetic is
  ECMAScript's (\<^verbatim>\<open>Day\<close>, \<^verbatim>\<open>DayFromYear\<close>, \<^verbatim>\<open>YearFromTime\<close>, \<^verbatim>\<open>MonthFromTime\<close>,
  \<^verbatim>\<open>DateFromTime\<close>, \<^verbatim>\<open>WeekDay\<close>, \<^verbatim>\<open>MakeDay\<close>, \<^verbatim>\<open>MakeTime\<close>, \<^verbatim>\<open>MakeDate\<close>), taken on
  day numbers. The range limit of time values is not modelled.
\<close>

definition msPerDay :: int where
  "msPerDay = 86400000"

definition Day :: "int \<Rightarrow> int" where
  "Day t = t div msPerDay"

definition TimeWithinDay :: "int \<Rightarrow> int" where
  "TimeWithinDay t = t mod msPerDay"

definition DayFromYear :: "int \<Rightarrow> int" where
  "DayFromYear y =
     365 * (y - 1970) + (y - 1969) div 4 - (y - 1901) div 100 + (y - 1601) div 400"

definition InLeapYear :: "int \<Rightarrow> bool" where
  "InLeapYear y =
     (if y mod 4 \<noteq> 0 then False else if y mod 100 \<noteq> 0 then True else y mod 400 = 0)"

definition DaysInYear :: "int \<Rightarrow> int" where
  "DaysInYear y = (if InLeapYear y then 366 else 365)"

text \<open>
  The year of a day number: the one \<open>y\<close> with \<open>DayFromYear y \<le> d < DayFromYear (y + 1)\<close>
  (lemmas \<open>YearFromDay_bounds\<close>, \<open>YearFromDay_unique\<close>), computed from an estimate that is
  off by at most one.
\<close>

definition YearFromDay :: "int \<Rightarrow> int" where
  "YearFromDay d =
     (let e = 1970 + (400 * d) div 146097
      in if d < DayFromYear e then e - 1
         else if DayFromYear (e + 1) \<le> d then e + 1
         else e)"

text \<open>Days of the year before month \<open>m\<close> (0 is January; 12 gives the year's length).\<close>

definition month_start :: "bool \<Rightarrow> int \<Rightarrow> int" where
  "month_start leap m =
     (let l = (if leap then 1 else 0) in
      if m = 0 then 0 else if m = 1 then 31 else if m = 2 then 59 + l
      else if m = 3 then 90 + l else if m = 4 then 120 + l else if m = 5 then 151 + l
      else if m = 6 then 181 + l else if m = 7 then 212 + l else if m = 8 then 243 + l
      else if m = 9 then 273 + l else if m = 10 then 304 + l else if m = 11 then 334 + l
      else 365 + l)"

definition DayWithinYear :: "int \<Rightarrow> int" where
  "DayWithinYear d = d - DayFromYear (YearFromDay d)"

definition MonthFromDay :: "int \<Rightarrow> int" where
  "MonthFromDay d =
     (let w = DayWithinYear d; l = (if InLeapYear (YearFromDay d) then 1 else 0) in
      if w < 31 then 0 else if w < 59 + l then 1 else if w < 90 + l then 2
      else if w < 120 + l then 3 else if w < 151 + l then 4 else if w < 181 + l then 5
      else if w < 212 + l then 6 else if w < 243 + l then 7 else if w < 273 + l then 8
      else if w < 304 + l then 9 else if w < 334 + l then 10 else 11)"

definition DateFromDay :: "int \<Rightarrow> int" where
  "DateFromDay d =
     DayWithinYear d - month_start (InLeapYear (YearFromDay d)) (MonthFromDay d) + 1"

definition WeekDay :: "int \<Rightarrow> int" where
  "WeekDay d = (d + 4) mod 7"

definition MakeDay :: "int \<Rightarrow> int \<Rightarrow> int \<Rightarrow> int" where
  "MakeDay year month dt =
     (let ym = year + month div 12; mn = month mod 12
      in DayFromYear ym + month_start (InLeapYear ym) mn + dt - 1)"

definition MakeTime :: "int \<Rightarrow> int \<Rightarrow> int \<Rightarrow> int \<Rightarrow> int" where
  "MakeTime h m s ms = h * 3600000 + m * 60000 + s * 1000 + ms"

definition MakeDate :: "int \<Rightarrow> int \<Rightarrow> int" where
  "MakeDate day time = day * msPerDay + time"

text \<open>A two-digit year given to the Date constructor means 19xx.\<close>

definition MakeFullYear :: "int \<Rightarrow> int" where
  "MakeFullYear y = (if 0 \<le> y \<and> y \<le> 99 then 1900 + y else y)"

text \<open>
  The time zone of the host is ECMAScript's \<^verbatim>\<open>LocalTZA(t, isUTC)\<close>, the offset of local
  time in milliseconds: \<open>tz t True\<close> at the instant \<open>t\<close>, and \<open>tz t False\<close> at the local time
  \<open>t\<close>. With daylight saving the offset depends on \<open>t\<close>; a zone that keeps one offset
  all year is a constant.
\<close>

type_synonym zone = "int \<Rightarrow> bool \<Rightarrow> int"

definition LocalTime :: "zone \<Rightarrow> int \<Rightarrow> int" where
  "LocalTime tz t = t + tz t True"

definition UTC :: "zone \<Rightarrow> int \<Rightarrow> int" where
  "UTC tz t = t - tz t False"

definition fixed_zone :: "int \<Rightarrow> zone" where
  "fixed_zone minutes = (\<lambda>t isUTC. minutes * 60000)"

text \<open>The methods of a Date that the handlers call, in the zone \<open>tz\<close>.\<close>

definition getDay :: "zone \<Rightarrow> int \<Rightarrow> int" where
  "getDay tz t = WeekDay (Day (LocalTime tz t))"

definition getDate :: "zone \<Rightarrow> int \<Rightarrow> int" where
  "getDate tz t = DateFromDay (Day (LocalTime tz t))"

definition getMonth :: "zone \<Rightarrow> int \<Rightarrow> int" where
  "getMonth tz t = MonthFromDay (Day (LocalTime tz t))"

definition getFullYear :: "zone \<Rightarrow> int \<Rightarrow> int" where
  "getFullYear tz t = YearFromDay (Day (LocalTime tz t))"

definition setDate :: "zone \<Rightarrow> int \<Rightarrow> int \<Rightarrow> int" where
  "setDate tz t dt =
     (let lt = LocalTime tz t
      in UTC tz (MakeDate (MakeDay (YearFromDay (Day lt)) (MonthFromDay (Day lt)) dt)
                          (TimeWithinDay lt)))"

definition setHours :: "zone \<Rightarrow> int \<Rightarrow> int \<Rightarrow> int \<Rightarrow> int \<Rightarrow> int \<Rightarrow> int" where
  "setHours tz t h m s ms = UTC tz (MakeDate (Day (LocalTime tz t)) (MakeTime h m s ms))"

text \<open>\<^verbatim>\<open>new Date(year, month, date, hours, minutes, seconds)\<close>, in local time.\<close>

definition new_Date :: "zone \<Rightarrow> int \<Rightarrow> int \<Rightarrow> int \<Rightarrow> int \<Rightarrow> int \<Rightarrow> int \<Rightarrow> int" where
  "new_Date tz year month dt h m s =
     UTC tz (MakeDate (MakeDay (MakeFullYear year) month dt) (MakeTime h m s 0))"

text \<open>Decimal digits of a number that is not negative, zero-padded on the left to a width.\<close>

definition digit_char :: "int \<Rightarrow> char" where
  "digit_char d =
     (if d = 0 then CHR ''0'' else if d = 1 then CHR ''1'' else if d = 2 then CHR ''2''
      else if d = 3 then CHR ''3'' else if d = 4 then CHR ''4'' else if d = 5 then CHR ''5''
      else if d = 6 then CHR ''6'' else if d = 7 then CHR ''7'' else if d = 8 then CHR ''8''
      else CHR ''9'')"

function digits :: "int \<Rightarrow> string" where
  "digits n = (if n < 10 then [digit_char n] else digits (n div 10) @ [digit_char (n mod 10)])"
  by pat_completeness auto
termination
  by (relation "measure nat") auto

definition pad :: "nat \<Rightarrow> int \<Rightarrow> string" where
  "pad w n = replicate (w - length (digits n)) (CHR ''0'') @ digits n"

text \<open>
  \<^verbatim>\<open>toISOString\<close>: \<^verbatim>\<open>YYYY-MM-DDTHH:mm:ss.sssZ\<close> in UTC, the year with a sign and six digits
  outside 0..9999.
\<close>

definition iso_year :: "int \<Rightarrow> string" where
  "iso_year y =
     (if 0 \<le> y \<and> y \<le> 9999 then pad 4 y
      else (if y < 0 then ''-'' else ''+'') @ pad 6 \<bar>y\<bar>)"

definition toISOString :: "int \<Rightarrow> string" where
  "toISOString t =
     (let d = Day t; w = TimeWithinDay t in
      iso_year (YearFromDay d) @ ''-'' @ pad 2 (MonthFromDay d + 1) @ ''-'' @
      pad 2 (DateFromDay d) @ ''T'' @ pad 2 (w div 3600000) @ '':'' @
      pad 2 (w mod 3600000 div 60000) @ '':'' @ pad 2 (w mod 60000 div 1000) @
      ''.'' @ pad 3 (w mod 1000) @ ''Z'')"

text \<open>
  What the program takes from its host: the time zone, the clock, the parser behind
  \<^verbatim>\<open>new Date(string)\<close> (\<open>None\<close> for an Invalid Date), the printing of numbers
  (\<^verbatim>\<open>`${n}`\<close>, \<^verbatim>\<open>n.toFixed(2)\<close>,
  \<^verbatim>\<open>n.toLocaleString(undefined, {minimumFractionDigits: 2, maximumFractionDigits: 2})\<close>),
  and on the server the aggregate \<^verbatim>\<open>SUM\<close> of SQLite over the REAL values of the rows
  selected, a list that is not empty.
\<close>

record runtime =
  tz_offset :: zone
  clock :: int
  Date_parse :: "string \<Rightarrow> int option"
  Number_toString :: "rat \<Rightarrow> string"
  Number_toFixed2 :: "rat \<Rightarrow> string"
  Number_toLocaleString2 :: "rat \<Rightarrow> string"
  SQL_SUM :: "rat list \<Rightarrow> rat"

text \<open>
  The form of date strings that the submission form produces, \<^verbatim>\<open>YYYY-MM-DD\<close>, which
  \<^verbatim>\<open>new Date\<close> reads as midnight UTC of that day. It is the parser of the example
  runtimes below; the handlers are stated for any parser.
\<close>

definition is_digit :: "char \<Rightarrow> bool" where
  "is_digit c \<longleftrightarrow> 48 \<le> (of_char c :: nat) \<and> (of_char c :: nat) \<le> 57"

definition decimal :: "string \<Rightarrow> int" where
  "decimal s = foldl (\<lambda>n c. 10 * n + (int (of_char c) - 48)) 0 s"

definition parse_date_only :: "string \<Rightarrow> int option" where
  "parse_date_only s =
     (if length s = 10 \<and> s ! 4 = CHR ''-'' \<and> s ! 7 = CHR ''-'' \<and>
         list_all is_digit (take 4 s @ take 2 (drop 5 s) @ drop 8 s)
      then
        (let y = decimal (take 4 s); m = decimal (take 2 (drop 5 s)); d = decimal (drop 8 s)
         in if 1 \<le> m \<and> m \<le> 12 \<and> 1 \<le> d \<and> MakeDay y m 1 - MakeDay y (m - 1) 1 \<ge> d
            then Some (MakeDate (MakeDay y (m - 1) d) 0)
            else None)
      else None)"

text \<open>
  Decimal printing of whole numbers and of two-decimal amounts (half away from zero, as
  \<^verbatim>\<open>toFixed\<close> rounds the exact value, with the sign of a negative number), for the
  example hosts.
\<close>

definition show_int :: "int \<Rightarrow> string" where
  "show_int i = (if i < 0 then ''-'' else []) @ digits \<bar>i\<bar>"

definition show_fixed2 :: "rat \<Rightarrow> string" where
  "show_fixed2 x =
     (let n = \<lfloor>\<bar>x\<bar> * 100 + 1 / 2\<rfloor>
      in (if x < 0 then ''-'' else []) @ digits (n div 100) @ ''.'' @
         pad 2 (n mod 100))"

text \<open>
  The sum of doubles as SQLite computes it since version 3.43: a running sum \<open>s\<close> and a
  running error term \<open>e\<close> (Kahan, Babuska and Neumaier), added at the end. It is the
  \<^verbatim>\<open>SUM\<close> of the example hosts below; the handlers are stated for any.
\<close>

fun sqlite_sum_step :: "rat \<Rightarrow> rat \<Rightarrow> rat list \<Rightarrow> rat" where
  "sqlite_sum_step s e [] = js_add s e"
| "sqlite_sum_step s e (r # rs) =
     (let t = js_add s r
      in sqlite_sum_step t
           (js_add e (if \<bar>r\<bar> < \<bar>s\<bar> then js_add (js_sub s t) r else js_add (js_sub r t) s)) rs)"

definition sqlite_sum :: "rat list \<Rightarrow> rat" where
  "sqlite_sum xs = sqlite_sum_step 0 0 xs"

text \<open>
  An example host: a zone that is \<open>minutes\<close> ahead of UTC all year, the clock at \<open>now\<close>.
\<close>

definition example_runtime :: "int \<Rightarrow> int \<Rightarrow> runtime" where
  "example_runtime minutes now =
     \<lparr>tz_offset = fixed_zone minutes, clock = now, Date_parse = parse_date_only,
      Number_toString = (\<lambda>x. show_int \<lfloor>x\<rfloor>), Number_toFixed2 = show_fixed2,
      Number_toLocaleString2 = show_fixed2, SQL_SUM = sqlite_sum\<rparr>"

subsection \<open>Tables\<close>

text \<open>
  An expense, as the JSON body of a request and as a row of \<^verbatim>\<open>expenses\<close> (primary key
  \<^verbatim>\<open>id\<close>); every field may be absent.
\<close>

record expense =
  id' :: "string option"
  userId :: "string option"
  amount :: "rat option"
  currency :: "string option"
  date :: "string option"
  category :: "string option"
  description :: "string option"
  receiptImage :: "string option"
  status :: "string option"
  notes' :: "string option"
  createdAt :: "string option"

text \<open>A row of \<^verbatim>\<open>policies\<close> without its primary key \<^verbatim>\<open>category\<close>, which keys the table.\<close>

record policy =
  maxAmount :: "rat option"
  dailyLimit :: "rat option"
  weeklyLimit :: "rat option"
  monthlyLimit :: "rat option"
  policy_description :: "string option"
  policy_currency :: "string option"

text \<open>A row of \<^verbatim>\<open>conversion_rates\<close>.\<close>

record rate_row =
  date_fetched :: string
  from_currency :: string
  to_currency :: string
  rate :: rat

record database =
  expenses :: "expense list"
  policies :: "string \<rightharpoonup> policy"
  conversion_rates :: "rate_row list"

text \<open>The response of a handler: the status code with its JSON payload or error text.\<close>

datatype 'a response =
  Status200 'a | Status201 'a | Status400 string | Status404 string | Status500 string

subsection \<open>GET /api/expenses/user/:userId\<close>

text \<open>
  The employee branch is the SQL condition
  \<^verbatim>\<open>status = 'approved' OR status = 'rejected' OR (status = 'pending' AND NOT (status = 'flagged'))\<close>,
  which a NULL status does not satisfy; any role other than \<^verbatim>\<open>manager\<close> (also a missing
  one) takes it.
\<close>

definition employee_visible :: "expense \<Rightarrow> bool" where
  "employee_visible e \<longleftrightarrow>
     status e = Some ''approved'' \<or> status e = Some ''rejected'' \<or>
     (status e = Some ''pending'' \<and> \<not> (status e = Some ''flagged''))"

definition get_user_expenses :: "database \<Rightarrow> string \<Rightarrow> string option \<Rightarrow> expense list" where
  "get_user_expenses db uid userRole =
     (if userRole = Some ''manager''
      then filter (\<lambda>e. userId e = Some uid) (expenses db)
      else filter (\<lambda>e. userId e = Some uid \<and> employee_visible e) (expenses db))"

subsection \<open>POST /api/expenses\<close>

text \<open>The guard on the required fields: a missing or empty string, a missing or zero amount.\<close>

definition required_missing :: "expense \<Rightarrow> bool" where
  "required_missing e \<longleftrightarrow>
     falsy_str (id' e) \<or> falsy_str (userId e) \<or> falsy_num (amount e) \<or>
     falsy_str (currency e) \<or> falsy_str (date e) \<or> falsy_str (category e) \<or>
     falsy_str (description e)"

text \<open>
  \<^verbatim>\<open>SELECT SUM(amount) FROM expenses WHERE userId = ? AND category = ? AND date >= ? AND
  date <= ? AND currency = ?\<close>: a comparison with a NULL column does not hold, the dates are
  compared as TEXT, and SUM is NULL when no row with an amount matches; otherwise it is
  the engine's sum of the amounts that are not NULL, in the order of the rows.
\<close>

definition matches :: "string \<Rightarrow> string \<Rightarrow> string \<Rightarrow> string \<Rightarrow> string \<Rightarrow> expense \<Rightarrow> bool" where
  "matches uid cat lo hi cur r \<longleftrightarrow>
     userId r = Some uid \<and> category r = Some cat \<and>
     (case date r of None \<Rightarrow> False | Some d \<Rightarrow> text_le lo d \<and> text_le d hi) \<and>
     currency r = Some cur"

definition sql_sum :: "runtime \<Rightarrow> rat option list \<Rightarrow> rat option" where
  "sql_sum rt xs =
     (if [a. Some a \<leftarrow> xs] = [] then None else Some (SQL_SUM rt [a. Some a \<leftarrow> xs]))"

definition sum_amount ::
  "runtime \<Rightarrow> expense list \<Rightarrow> string \<Rightarrow> string \<Rightarrow> string \<Rightarrow> string \<Rightarrow> string \<Rightarrow> rat option" where
  "sum_amount rt rows uid cat lo hi cur =
     sql_sum rt (map amount (filter (matches uid cat lo hi cur) rows))"

text \<open>The bounds of the two windows, from the Date of the expense.\<close>

definition startOfWeek :: "zone \<Rightarrow> int \<Rightarrow> int" where
  "startOfWeek tz expenseDate =
     setHours tz (setDate tz expenseDate (getDate tz expenseDate - getDay tz expenseDate)) 0 0 0 0"

definition endOfWeek :: "zone \<Rightarrow> int \<Rightarrow> int" where
  "endOfWeek tz expenseDate =
     (let sw = startOfWeek tz expenseDate
      in setHours tz (setDate tz sw (getDate tz sw + 6)) 23 59 59 999)"

definition startOfMonth :: "zone \<Rightarrow> int \<Rightarrow> int" where
  "startOfMonth tz expenseDate =
     new_Date tz (getFullYear tz expenseDate) (getMonth tz expenseDate) 1 0 0 0"

definition endOfMonth :: "zone \<Rightarrow> int \<Rightarrow> int" where
  "endOfMonth tz expenseDate =
     new_Date tz (getFullYear tz expenseDate) (getMonth tz expenseDate + 1) 0 23 59 59"

text \<open>
  \<^verbatim>\<open>weeklyTotal\<close> and \<^verbatim>\<open>monthlyTotal\<close>: the sum over the stored rows, or 0, plus the new
  amount, an addition of doubles. They are used once the required fields are known to
  be present.
\<close>

definition weeklyTotal :: "runtime \<Rightarrow> database \<Rightarrow> expense \<Rightarrow> int \<Rightarrow> rat" where
  "weeklyTotal rt db e expenseDate =
     js_add
       (or_num (sum_amount rt (expenses db) (the (userId e)) (the (category e))
                  (toISOString (startOfWeek (tz_offset rt) expenseDate))
                  (toISOString (endOfWeek (tz_offset rt) expenseDate)) (the (currency e))) 0)
       (the (amount e))"

definition monthlyTotal :: "runtime \<Rightarrow> database \<Rightarrow> expense \<Rightarrow> int \<Rightarrow> rat" where
  "monthlyTotal rt db e expenseDate =
     js_add
       (or_num (sum_amount rt (expenses db) (the (userId e)) (the (category e))
                  (toISOString (startOfMonth (tz_offset rt) expenseDate))
                  (toISOString (endOfMonth (tz_offset rt) expenseDate)) (the (currency e))) 0)
       (the (amount e))"

text \<open>\<^verbatim>\<open>policy.weeklyLimit && weeklyTotal > policy.weeklyLimit\<close>.\<close>

definition exceeds :: "rat option \<Rightarrow> rat \<Rightarrow> bool" where
  "exceeds limit tot = (case limit of None \<Rightarrow> False | Some l \<Rightarrow> l \<noteq> 0 \<and> tot > l)"

definition weekly_message :: "runtime \<Rightarrow> policy \<Rightarrow> rat \<Rightarrow> string" where
  "weekly_message rt p tot =
     ''Exceeds weekly limit of '' @ Number_toString rt (the (weeklyLimit p)) @ '' '' @
     template (policy_currency p) @ '' (weekly total: '' @ Number_toFixed2 rt tot @ '')''"

definition monthly_message :: "runtime \<Rightarrow> policy \<Rightarrow> rat \<Rightarrow> string" where
  "monthly_message rt p tot =
     ''Exceeds monthly limit of '' @ Number_toString rt (the (monthlyLimit p)) @ '' '' @
     template (policy_currency p) @ '' (monthly total: '' @ Number_toFixed2 rt tot @ '')''"

text \<open>
  The branch taken when the category has a policy. An Invalid Date makes
  \<^verbatim>\<open>toISOString\<close> throw a RangeError, which the handler's \<^verbatim>\<open>catch\<close> turns into status 500:
  the result is \<open>None\<close>.
\<close>

definition check_limits :: "runtime \<Rightarrow> database \<Rightarrow> policy \<Rightarrow> expense \<Rightarrow> expense option" where
  "check_limits rt db p e =
     (case Date_parse rt (the (date e)) of
        None \<Rightarrow> None
      | Some expenseDate \<Rightarrow>
          (let wt = weeklyTotal rt db e expenseDate;
               withinWeeklyLimit = \<not> exceeds (weeklyLimit p) wt;
               mt = monthlyTotal rt db e expenseDate;
               withinMonthlyLimit = \<not> exceeds (monthlyLimit p) mt
           in if withinWeeklyLimit \<and> withinMonthlyLimit
              then Some (e\<lparr>status := Some ''approved''\<rparr>)
              else
                (let limitMessage =
                       (if \<not> withinWeeklyLimit then weekly_message rt p wt
                        else monthly_message rt p mt)
                 in Some (e\<lparr>status := Some ''pending'',
                             notes' := Some (if falsy_str (notes' e) then limitMessage
                                             else the (notes' e) @ ''. '' @ limitMessage)\<rparr>))))"

text \<open>The lookup of the policy and the decision; the status sent by the client is overwritten.\<close>

definition check_policy :: "runtime \<Rightarrow> database \<Rightarrow> expense \<Rightarrow> expense option" where
  "check_policy rt db e =
     (case policies db (the (category e)) of
        None \<Rightarrow> Some (e\<lparr>status := Some ''pending''\<rparr>)
      | Some p \<Rightarrow> check_limits rt db p e)"

definition response_message :: "string \<Rightarrow> string" where
  "response_message st =
     (if st = ''approved'' then ''Expense approved automatically (within policy limits)''
      else ''Expense submitted for approval'')"

text \<open>
  The handler. The INSERT fails on a primary key that is already stored, and the
  \<^verbatim>\<open>catch\<close> answers 500 with the table unchanged. The payload of status 201 is \<open>(id,
  status, message)\<close>.
\<close>

definition post_expenses ::
  "runtime \<Rightarrow> database \<Rightarrow> expense \<Rightarrow> database \<times> (string \<times> string \<times> string) response" where
  "post_expenses rt db body =
     (if required_missing body
      then (db, Status400 ''Missing required expense fields'')
      else
        (let e1 = body\<lparr>createdAt := Some (or_str (createdAt body) (toISOString (clock rt)))\<rparr>
         in case check_policy rt db e1 of
              None \<Rightarrow> (db, Status500 ''Server error'')
            | Some e2 \<Rightarrow>
                (let st = or_str (status e2) ''pending'';
                     row = e2\<lparr>receiptImage := or_null (receiptImage e2), status := Some st,
                              notes' := or_null (notes' e2)\<rparr>
                 in if id' row \<in> id' ` set (expenses db)
                    then (db, Status500 ''Server error'')
                    else (db\<lparr>expenses := expenses db @ [row]\<rparr>,
                          Status201 (the (id' row), st, response_message st)))))"

subsection \<open>PUT /api/expenses/:id and PUT /api/policies/:category\<close>


definition put_policy ::
  "database \<Rightarrow> string option \<Rightarrow> string \<Rightarrow> policy \<Rightarrow> database \<times> unit response" where
  "put_policy db query_role cat body =
     (db\<lparr>policies :=
           (case policies db cat of
              None \<Rightarrow> policies db
            | Some old \<Rightarrow> (policies db)(cat \<mapsto> body))\<rparr>,
      Status200 ())"

subsection \<open>The fraud heuristic and the client's addExpense\<close>

text \<open>\<^verbatim>\<open>industryBenchmarks[category].averageMonthly\<close> (utils/db.ts).\<close>

definition industryBenchmarks :: "string \<rightharpoonup> rat" where
  "industryBenchmarks =
     map_of [(''Office Supplies'', 350), (''Food & Entertainment'', 800), (''Travelling'', 1500),
             (''Accommodation'', 2000), (''Client & Project Expenses'', 3000),
             (''Subscriptions'', 700)]"

definition suspiciousKeywords :: "string list" where
  "suspiciousKeywords = [''gift'', ''personal'', ''cash'', ''advance'', ''reimbursement'']"

text \<open>
  \<^verbatim>\<open>detectFraud\<close>: the four rules in the order of the source, each adding at most one
  reason. An Invalid Date is on no weekday and is not after now.
\<close>

definition detectFraud :: "runtime \<Rightarrow> expense \<Rightarrow> bool \<times> string list" where
  "detectFraud rt e =
     (let categoryBenchmark = (case category e of None \<Rightarrow> None | Some c \<Rightarrow> industryBenchmarks c);
          r1 = (case (categoryBenchmark, amount e) of
                  (Some avg, Some a) \<Rightarrow>
                    if a > js_mul avg 3
                    then [''Amount is more than 3x the average for '' @ template (category e)]
                    else []
                | _ \<Rightarrow> []);
          expenseDate = (case date e of None \<Rightarrow> None | Some d \<Rightarrow> Date_parse rt d);
          r2 = (case expenseDate of
                  None \<Rightarrow> []
                | Some t \<Rightarrow>
                    if getDay (tz_offset rt) t = 0 \<or> getDay (tz_offset rt) t = 6
                    then [''Expense submitted on a weekend''] else []);
          r3 = (case expenseDate of
                  None \<Rightarrow> []
                | Some t \<Rightarrow> if t > clock rt then [''Expense dated in the future''] else []);
          r4 = (if falsy_str (description e) then []
                else (case find (includes' (toLowerCase (the (description e)))) suspiciousKeywords of
                        None \<Rightarrow> []
                      | Some keyword \<Rightarrow>
                          [''Description contains suspicious keyword: '' @ [CHR 0x22] @ keyword @
                           [CHR 0x22]]));
          reasons = r1 @ r2 @ r3 @ r4
      in (reasons \<noteq> [], reasons))"

text \<open>
  \<^verbatim>\<open>addExpense\<close> of the ExpenseContext, with the fetch of \<^verbatim>\<open>api.addExpense\<close> replaced by the
  handler it reaches: \<open>crt\<close> is the browser's runtime, \<open>uuid\<close> the result of
  \<^verbatim>\<open>crypto.randomUUID()\<close>, \<open>srt\<close> the server's runtime. A response that is not ok is
  thrown (\<open>Inl\<close> with the error text); otherwise the result is \<open>(id, status, message)\<close>.
  The reasons of the heuristic are not used.
\<close>

definition addExpense ::
  "runtime \<Rightarrow> string \<Rightarrow> runtime \<Rightarrow> database \<Rightarrow> expense \<Rightarrow>
     database \<times> (string + string \<times> string \<times> string)" where
  "addExpense crt uuid srt db expense =
     (let tempExpense = expense\<lparr>id' := Some uuid, createdAt := Some (toISOString (clock crt))\<rparr>;
          isFraud = fst (detectFraud crt tempExpense);
          expenseToSubmit = tempExpense\<lparr>status := Some (if isFraud then ''flagged'' else ''pending'')\<rparr>;
          apiSubmission = (if \<not> isFraud then expenseToSubmit\<lparr>status := None\<rparr> else expenseToSubmit)
      in case post_expenses srt db apiSubmission of
           (db', Status201 (rid, rstatus, rmessage)) \<Rightarrow>
             (db', Inr (rid, if isFraud then ''flagged'' else rstatus,
                        if isFraud then ''Expense flagged for potential fraud'' else rmessage))
         | (db', Status200 (rid, rstatus, rmessage)) \<Rightarrow>
             (db', Inr (rid, if isFraud then ''flagged'' else rstatus,
                        if isFraud then ''Expense flagged for potential fraud'' else rmessage))
         | (db', Status400 err) \<Rightarrow> (db', Inl err)
         | (db', Status404 err) \<Rightarrow> (db', Inl err)
         | (db', Status500 err) \<Rightarrow> (db', Inl err))"

subsection \<open>The submission form (AddExpense)\<close>

record form =
  form_amount :: rat
  form_currency :: string
  form_date :: string
  form_category :: string
  form_description :: string
  form_receiptImage :: "string option"
  form_fraudDetection :: "(bool \<times> string list) option"

record form_errors =
  error_amount :: "string option"
  error_date :: "string option"
  error_description :: "string option"
  policyWarning :: "string option"

text \<open>\<^verbatim>\<open>getCurrencySymbol\<close> (the symbols as UTF-8 bytes) and \<^verbatim>\<open>formatCurrency\<close>.\<close>

definition getCurrencySymbol :: "string \<Rightarrow> string" where
  "getCurrencySymbol c =
     (if c = ''USD'' then ''$''
      else if c = ''EUR'' then [CHR 0xE2, CHR 0x82, CHR 0xAC]
      else if c = ''GBP'' then [CHR 0xC2, CHR 0xA3]
      else if c = ''INR'' then [CHR 0xE2, CHR 0x82, CHR 0xB9]
      else ''$'')"

definition formatCurrency :: "runtime \<Rightarrow> rat \<Rightarrow> string \<Rightarrow> string" where
  "formatCurrency rt a c = getCurrencySymbol c @ Number_toLocaleString2 rt a"

text \<open>
  \<^verbatim>\<open>validateExpenseAgainstPolicy\<close>, over the policies the client has loaded (a list of
  category and policy; \<^verbatim>\<open>find\<close> takes the first of a category).
\<close>

definition validateExpenseAgainstPolicy ::
  "runtime \<Rightarrow> (string \<times> policy) list \<Rightarrow> rat \<Rightarrow> string \<Rightarrow> bool \<times> string" where
  "validateExpenseAgainstPolicy rt pols a cat =
     (case map_of pols cat of
        None \<Rightarrow> (True, ''No policy found for this category'')
      | Some p \<Rightarrow>
          (let limit = or_num (monthlyLimit p) 0; valid = (a \<le> limit)
           in (valid,
               (if valid then ''Amount is within policy limit of ''
                else ''Amount exceeds policy limit of '') @
               formatCurrency rt limit (template (policy_currency p)))))"

text \<open>\<^verbatim>\<open>String.prototype.trim\<close>, on the ASCII white space.\<close>

definition is_space :: "char \<Rightarrow> bool" where
  "is_space c \<longleftrightarrow> c \<in> {CHR 0x20, CHR 0x09, CHR 0x0A, CHR 0x0B, CHR 0x0C, CHR 0x0D}"

definition trim :: "string \<Rightarrow> string" where
  "trim s = rev (dropWhile is_space (rev (dropWhile is_space s)))"

definition validateForm :: "runtime \<Rightarrow> (string \<times> policy) list \<Rightarrow> form \<Rightarrow> form_errors" where
  "validateForm rt pols f =
     \<lparr>error_amount =
        (if form_amount f = 0 \<or> form_amount f \<le> 0 then Some ''Please enter a valid amount''
         else None),
      error_date =
        (if form_date f = [] then Some ''Please select a date''
         else (case Date_parse rt (form_date f) of
                 None \<Rightarrow> None
               | Some selectedDate \<Rightarrow>
                   if selectedDate > clock rt then Some ''Date cannot be in the future''
                   else None)),
      error_description =
        (if form_description f = [] \<or> length (trim (form_description f)) < 5
         then Some ''Please enter a description (minimum 5 characters)'' else None),
      policyWarning =
        (let validation = validateExpenseAgainstPolicy rt pols (form_amount f) (form_category f)
         in if \<not> fst validation then Some (snd validation) else None)\<rparr>"

text \<open>\<^verbatim>\<open>reasons.join(', ')\<close>.\<close>

fun join :: "string list \<Rightarrow> string" where
  "join [] = []"
| "join [x] = x"
| "join (x # y # ys) = x @ '', '' @ join (y # ys)"

datatype submit_outcome =
  ValidationFailed form_errors
| Submitted string string string
| SubmitFailed string

text \<open>
  The retry loop of \<^verbatim>\<open>handleSubmit\<close>: \<open>k\<close> is \<^verbatim>\<open>retryCount\<close>, \<open>fuel\<close> the retries left
  (\<^verbatim>\<open>maxRetries\<close> is 3, so four attempts); each attempt draws a new UUID.
\<close>

fun submit_retry ::
  "nat \<Rightarrow> nat \<Rightarrow> runtime \<Rightarrow> (nat \<Rightarrow> string) \<Rightarrow> runtime \<Rightarrow> database \<Rightarrow> expense \<Rightarrow>
     database \<times> (string + string \<times> string \<times> string)" where
  "submit_retry 0 k crt uuids srt db e = addExpense crt (uuids k) srt db e"
| "submit_retry (Suc fuel) k crt uuids srt db e =
     (case addExpense crt (uuids k) srt db e of
        (db', Inr r) \<Rightarrow> (db', Inr r)
      | (db', Inl err) \<Rightarrow> submit_retry fuel (Suc k) crt uuids srt db' e)"

definition submit_error_message :: "string \<Rightarrow> string" where
  "submit_error_message err =
     (if includes' err ''Database connection''
      then ''Database connection issue. Please reload the page and try again.''
      else if includes' err ''storage''
      then ''Storage issue. Your browser storage might be full or restricted.''
      else if includes' err ''policy''
      then ''Expense amount exceeds policy limits. Please adjust the amount or category.''
      else ''An error occurred while submitting the expense. Please try again.'')"

text \<open>
  \<^verbatim>\<open>handleSubmit\<close>: the blocking errors are those of the amount, the date and the
  description; with one of them nothing is sent. \<open>uid\<close> is the id of the user logged in.
\<close>

definition handleSubmit ::
  "runtime \<Rightarrow> (nat \<Rightarrow> string) \<Rightarrow> runtime \<Rightarrow> string \<Rightarrow> (string \<times> policy) list \<Rightarrow>
     database \<Rightarrow> form \<Rightarrow> database \<times> submit_outcome" where
  "handleSubmit crt uuids srt uid pols db f =
     (let newErrors = validateForm crt pols f
      in if error_amount newErrors \<noteq> None \<or> error_date newErrors \<noteq> None \<or>
            error_description newErrors \<noteq> None
         then (db, ValidationFailed newErrors)
         else
           (let isFraud = (case form_fraudDetection f of None \<Rightarrow> False | Some fd \<Rightarrow> fst fd);
                expense =
                  \<lparr>id' = None, userId = Some uid, amount = Some (form_amount f),
                   currency = Some (form_currency f), date = Some (form_date f),
                   category = Some (form_category f), description = Some (form_description f),
                   receiptImage = or_null (form_receiptImage f),
                   status = Some (if isFraud then ''flagged'' else ''pending''),
                   notes' =
                     (if isFraud
                      then Some (''Potential fraud detected: '' @
                                 join (snd (the (form_fraudDetection f))))
                      else (case or_null (policyWarning newErrors) of
                              Some w \<Rightarrow> Some (''Policy limit warning: '' @ w)
                            | None \<Rightarrow> None)),
                   createdAt = None\<rparr>
            in case submit_retry 3 0 crt uuids srt db expense of
                 (db', Inr (rid, rstatus, rmessage)) \<Rightarrow> (db', Submitted rid rstatus rmessage)
               | (db', Inl err) \<Rightarrow> (db', SubmitFailed (submit_error_message err))))"

subsection \<open>The manager's actions in the client\<close>


datatype action_outcome = Ignored | Done | ErrorShown string



definition handleSave ::
  "(string \<times> policy) list \<Rightarrow> database \<Rightarrow> (string \<times> policy) option \<Rightarrow>
     database \<times> (string \<times> policy) option \<times> action_outcome" where
  "handleSave pols db editingPolicy =
     (case editingPolicy of
        None \<Rightarrow> (db, None, Ignored)
      | Some (cat, p) \<Rightarrow>
          if (case monthlyLimit p of None \<Rightarrow> 0 | Some l \<Rightarrow> l) \<le> 0
          then (db, editingPolicy, ErrorShown ''Monthly limit must be greater than zero'')
          else if policy_description p = None
          then (db, editingPolicy, ErrorShown ''Failed to update policy. Please try again.'')
          else if trim (the (policy_description p)) = []
          then (db, editingPolicy, ErrorShown ''Description is required'')
          else
            (let p' = (case map_of pols cat of
                         None \<Rightarrow> p
                       | Some existingPolicy \<Rightarrow>
                           p\<lparr>weeklyLimit :=
                                Some (of_int \<lfloor>fl (or_num (monthlyLimit p) 0 / 4) + 1 / 2\<rfloor>),
                             dailyLimit := dailyLimit existingPolicy,
                             maxAmount := maxAmount existingPolicy\<rparr>)
             in (fst (put_policy db None cat p'), None, Done)))"

subsection \<open>Exchange rates on the server\<close>

text \<open>
  \<^verbatim>\<open>new Date().toISOString().split('T')[0]\<close>, the key of the day's rates.
\<close>

definition today :: "runtime \<Rightarrow> string" where
  "today rt = takeWhile (\<lambda>c. c \<noteq> CHR ''T'') (toISOString (clock rt))"

definition rate_entry :: "string \<Rightarrow> string \<Rightarrow> string \<Rightarrow> rat \<Rightarrow> rate_row" where
  "rate_entry day f t r = \<lparr>date_fetched = day, from_currency = f, to_currency = t, rate = r\<rparr>"

definition fallbackRates :: "string \<Rightarrow> rate_row list" where
  "fallbackRates day =
     [rate_entry day ''INR'' ''USD'' (fl 0.012), rate_entry day ''INR'' ''EUR'' (fl 0.011),
      rate_entry day ''INR'' ''GBP'' (fl 0.0094), rate_entry day ''INR'' ''INR'' 1,
      rate_entry day ''USD'' ''INR'' (fl 83.16), rate_entry day ''EUR'' ''INR'' (fl 90.91),
      rate_entry day ''GBP'' ''INR'' (fl 106.38)]"

text \<open>
  \<^verbatim>\<open>fetchAndStoreCurrencyRates\<close>. \<open>ext\<close> is what the request to the rate provider gives:
  \<open>None\<close> when it fails or its answer has no \<^verbatim>\<open>rates\<close>, else the rates by currency
  code. With rates of today stored nothing is done; a failure stores the fallback
  table; an answer stores, for each of USD, EUR and GBP whose rate is present and not
  zero, the rate from INR and its inverse, and then INR to INR.
\<close>

definition fetchAndStoreCurrencyRates ::
  "runtime \<Rightarrow> (string \<rightharpoonup> rat) option \<Rightarrow> database \<Rightarrow> database" where
  "fetchAndStoreCurrencyRates rt ext db =
     (if filter (\<lambda>r. date_fetched r = today rt) (conversion_rates db) \<noteq> [] then db
      else
        (case ext of
           None \<Rightarrow> db\<lparr>conversion_rates := conversion_rates db @ fallbackRates (today rt)\<rparr>
         | Some rates \<Rightarrow>
             db\<lparr>conversion_rates :=
                  conversion_rates db @
                  concat (map (\<lambda>c. if falsy_num (rates c) then []
                                    else [rate_entry (today rt) ''INR'' c (the (rates c)),
                                          rate_entry (today rt) c ''INR'' (fl (1 / the (rates c)))])
                              [''USD'', ''EUR'', ''GBP'']) @
                  [rate_entry (today rt) ''INR'' ''INR'' 1]\<rparr>))"

text \<open>\<^verbatim>\<open>SELECT rate ... WHERE date_fetched = ? AND from_currency = ? AND to_currency = ?\<close>.\<close>

definition lookup_rate :: "database \<Rightarrow> string \<Rightarrow> string \<Rightarrow> string \<Rightarrow> rat option" where
  "lookup_rate db day f t =
     (case filter (\<lambda>r. date_fetched r = day \<and> from_currency r = f \<and> to_currency r = t)
             (conversion_rates db) of
        [] \<Rightarrow> None
      | r # rs \<Rightarrow> Some (rate r))"

text \<open>
  POST /api/convert-currency: the rate of today, looked up again after a refresh when
  it is missing; status 404 when it is still missing. The payload is \<open>(rate, result)\<close>.
\<close>

definition post_convert_currency ::
  "runtime \<Rightarrow> (string \<rightharpoonup> rat) option \<Rightarrow> database \<Rightarrow> rat option \<Rightarrow> string option \<Rightarrow>
     string option \<Rightarrow> database \<times> (rat \<times> rat) response" where
  "post_convert_currency rt ext db amt fromCurrency toCurrency =
     (if falsy_num amt \<or> falsy_str fromCurrency \<or> falsy_str toCurrency
      then (db, Status400 ''Missing required fields'')
      else
        (case lookup_rate db (today rt) (the fromCurrency) (the toCurrency) of
           Some r \<Rightarrow> (db, Status200 (r, js_mul (the amt) r))
         | None \<Rightarrow>
             (let db' = fetchAndStoreCurrencyRates rt ext db
              in case lookup_rate db' (today rt) (the fromCurrency) (the toCurrency) of
                   None \<Rightarrow> (db', Status404 ''Exchange rate not found'')
                 | Some r \<Rightarrow> (db', Status200 (r, js_mul (the amt) r)))))"

text \<open>
  GET /api/exchange-rates: the rates of today (after a refresh when there are none) as
  a table by source and target currency, a later row replacing an earlier one.
\<close>

definition formattedRates :: "rate_row list \<Rightarrow> string \<Rightarrow> string \<Rightarrow> rat option" where
  "formattedRates rows f t =
     (case filter (\<lambda>r. from_currency r = f \<and> to_currency r = t) rows of
        [] \<Rightarrow> None
      | r # rs \<Rightarrow> Some (rate (last (r # rs))))"

definition get_exchange_rates ::
  "runtime \<Rightarrow> (string \<rightharpoonup> rat) option \<Rightarrow> database \<Rightarrow>
     database \<times> (string \<Rightarrow> string \<Rightarrow> rat option) response" where
  "get_exchange_rates rt ext db =
     (let rates = filter (\<lambda>r. date_fetched r = today rt) (conversion_rates db)
      in if rates = []
         then
           (let db' = fetchAndStoreCurrencyRates rt ext db;
                freshRates = filter (\<lambda>r. date_fetched r = today rt) (conversion_rates db')
            in (db', Status200 (formattedRates freshRates)))
         else (db, Status200 (formattedRates rates)))"

subsection \<open>The GET routes of the server\<close>

text \<open>
  Express gives a request to the first route, in the order of registration, whose
  method and path match, and no route of \<^verbatim>\<open>server.js\<close> passes a request on. A path is the
  list of its segments; a segment of a route is a literal or a parameter (\<^verbatim>\<open>:id\<close>), and
  the route \<^verbatim>\<open>*\<close> matches every path. These are the GET routes in the order of the
  file: \<^verbatim>\<open>app.get('*')\<close>, which sends the page \<^verbatim>\<open>index.html\<close>, is registered before
  \<^verbatim>\<open>app.get('/api/exchange-rates')\<close>. (The middleware \<^verbatim>\<open>express.static\<close> in front of
  them answers a GET only for a file of the build directory.)
\<close>

datatype segment = Lit string | Param

datatype route_path = Segments "segment list" | Every_path

datatype get_route =
  Users | UsersOfCompany | PendingUsers | AllExpenses | ExpensesOfUser | ExpenseById
| AllPolicies | PolicyOfCategory | IndexHtml | ExchangeRates

definition get_routes :: "(route_path \<times> get_route) list" where
  "get_routes =
     [(Segments [Lit ''api'', Lit ''users''], Users),
      (Segments [Lit ''api'', Lit ''users'', Lit ''company'', Param], UsersOfCompany),
      (Segments [Lit ''api'', Lit ''users'', Lit ''pending'', Param], PendingUsers),
      (Segments [Lit ''api'', Lit ''expenses''], AllExpenses),
      (Segments [Lit ''api'', Lit ''expenses'', Lit ''user'', Param], ExpensesOfUser),
      (Segments [Lit ''api'', Lit ''expenses'', Param], ExpenseById),
      (Segments [Lit ''api'', Lit ''policies''], AllPolicies),
      (Segments [Lit ''api'', Lit ''policies'', Param], PolicyOfCategory),
      (Every_path, IndexHtml),
      (Segments [Lit ''api'', Lit ''exchange-rates''], ExchangeRates)]"

fun segment_matches :: "segment \<Rightarrow> string \<Rightarrow> bool" where
  "segment_matches (Lit l) s = (l = s)"
| "segment_matches Param s = (s \<noteq> [])"

fun path_matches :: "route_path \<Rightarrow> string list \<Rightarrow> bool" where
  "path_matches Every_path p = True"
| "path_matches (Segments segs) p = list_all2 segment_matches segs p"

definition dispatch_get :: "string list \<Rightarrow> get_route option" where
  "dispatch_get p = map_option snd (find (\<lambda>r. path_matches (fst r) p) get_routes)"

subsection \<open>The currency converter of the client (utils/currency.ts)\<close>

datatype Currency = USD | EUR | GBP | INR

fun code :: "Currency \<Rightarrow> string" where
  "code USD = ''USD''"
| "code EUR = ''EUR''"
| "code GBP = ''GBP''"
| "code INR = ''INR''"

record CurrencyRates =
  base :: Currency
  rates :: "Currency \<Rightarrow> rat"
  timestamp :: int

text \<open>The module's cache: \<^verbatim>\<open>cachedRates\<close> and \<^verbatim>\<open>cacheTimestamp\<close>.\<close>

record cache =
  cachedRates :: "CurrencyRates option"
  cacheTimestamp :: int

definition CACHE_LIFETIME :: int where
  "CACHE_LIFETIME = 3600000"

definition defaultRates :: "Currency \<Rightarrow> rat" where
  "defaultRates c =
     (case c of USD \<Rightarrow> fl 0.012 | EUR \<Rightarrow> fl 0.011 | GBP \<Rightarrow> fl 0.0094 | INR \<Rightarrow> 1)"

text \<open>
  \<^verbatim>\<open>api.getExchangeRates\<close>: a GET of \<^verbatim>\<open>/api/exchange-rates\<close>. \<open>up\<close> says whether the
  requests of the client reach the server. The result is \<open>None\<close> when the promise is
  rejected: the request fails, the answer is not ok, or its body is not JSON, as is the
  page that the route \<^verbatim>\<open>*\<close> sends.
\<close>

definition api_getExchangeRates ::
  "bool \<Rightarrow> runtime \<Rightarrow> (string \<rightharpoonup> rat) option \<Rightarrow> database \<Rightarrow>
     database \<times> (string \<Rightarrow> string \<Rightarrow> rat option) option" where
  "api_getExchangeRates up srt ext db =
     (if \<not> up then (db, None)
      else
        (case dispatch_get [''api'', ''exchange-rates''] of
           Some ExchangeRates \<Rightarrow>
             (case get_exchange_rates srt ext db of
                (db', Status200 data) \<Rightarrow> (db', Some data)
              | (db', other) \<Rightarrow> (db', None))
         | other \<Rightarrow> (db, None)))"

text \<open>
  \<^verbatim>\<open>fetchCurrencyRates\<close>: the cached rates when they are less than an hour old, else
  the rates of the server, where a rate that is missing or zero counts as 1, else the
  default rates, which are not cached.
\<close>

definition fetchCurrencyRates ::
  "runtime \<Rightarrow> bool \<Rightarrow> runtime \<Rightarrow> (string \<rightharpoonup> rat) option \<Rightarrow> cache \<Rightarrow> database \<Rightarrow> Currency \<Rightarrow>
     CurrencyRates \<times> cache \<times> database" where
  "fetchCurrencyRates crt up srt ext ch db baseCurrency =
     (let now = clock crt;
          fresh = (case cachedRates ch of
                     None \<Rightarrow> None
                   | Some c \<Rightarrow>
                       if base c = baseCurrency \<and> now - cacheTimestamp ch < CACHE_LIFETIME
                       then Some c else None)
      in case fresh of
           Some c \<Rightarrow> (c, ch, db)
         | None \<Rightarrow>
             (case api_getExchangeRates up srt ext db of
                (db', Some data) \<Rightarrow>
                  (let r = \<lparr>base = INR,
                            rates = (\<lambda>c. case c of
                                       USD \<Rightarrow> or_num (data ''INR'' ''USD'') 1
                                     | EUR \<Rightarrow> or_num (data ''INR'' ''EUR'') 1
                                     | GBP \<Rightarrow> or_num (data ''INR'' ''GBP'') 1
                                     | INR \<Rightarrow> 1),
                            timestamp = now\<rparr>
                   in (r, \<lparr>cachedRates = Some r, cacheTimestamp = now\<rparr>, db'))
              | (db', None) \<Rightarrow>
                  (\<lparr>base = INR, rates = defaultRates, timestamp = now\<rparr>, ch, db')))"

text \<open>
  \<^verbatim>\<open>convertCurrency\<close>, with the fetch of \<^verbatim>\<open>api.convertCurrency\<close> replaced by the handler it
  reaches. The result is the number returned, with the cache and the database as they
  are left.
\<close>

definition convertCurrency ::
  "runtime \<Rightarrow> bool \<Rightarrow> runtime \<Rightarrow> (string \<rightharpoonup> rat) option \<Rightarrow> cache \<Rightarrow> database \<Rightarrow>
     rat \<Rightarrow> Currency \<Rightarrow> Currency \<Rightarrow> rat option \<times> cache \<times> database" where
  "convertCurrency crt up srt ext ch db amt fromCurrency toCurrency =
     (if fromCurrency = toCurrency then (Some amt, ch, db)
      else
        (let (db1, conversionResult) =
               (if up
                then (case post_convert_currency srt ext db (Some amt) (Some (code fromCurrency))
                             (Some (code toCurrency)) of
                        (db', Status200 (r, result)) \<Rightarrow> (db', Some result)
                      | (db', other) \<Rightarrow> (db', None))
                else (db, None))
         in case conversionResult of
              Some result \<Rightarrow> (Some result, ch, db1)
            | None \<Rightarrow>
                (let (rs, ch', db2) = fetchCurrencyRates crt up srt ext ch db1 INR
                 in if fromCurrency \<noteq> INR \<and> toCurrency \<noteq> INR
                    then (map_option (\<lambda>amountInINR. js_mul amountInINR (rates rs toCurrency))
                            (js_div amt (rates rs fromCurrency)), ch', db2)
                    else if fromCurrency = INR
                    then (Some (js_mul amt (rates rs toCurrency)), ch', db2)
                    else (js_div amt (rates rs fromCurrency), ch', db2))))"

subsection \<open>Example data\<close>

text \<open>
  The six policies that \<^verbatim>\<open>initializeDatabase\<close> stores in an empty database, and the
  database after it.
\<close>

definition mk_policy :: "rat \<Rightarrow> rat \<Rightarrow> string \<Rightarrow> policy" where
  "mk_policy w m d =
     \<lparr>maxAmount = None, dailyLimit = None, weeklyLimit = Some w, monthlyLimit = Some m,
      policy_description = Some d, policy_currency = Some ''INR''\<rparr>"

definition default_policies :: "(string \<times> policy) list" where
  "default_policies =
     [(''Office Supplies'',
       mk_policy 2500 10000 ''Items for office use including stationery, small equipment, etc.''),
      (''Food & Entertainment'',
       mk_policy 1250 5000 ''Meals, client entertainment, and team events.''),
      (''Travelling'',
       mk_policy 2500 10000 ''Transportation costs including airfare, train, taxi, etc.''),
      (''Accommodation'',
       mk_policy 1250 5000 ''Hotel and lodging expenses while on business trips.''),
      (''Client & Project Expenses'',
       mk_policy 25000 100000 ''Expenses directly related to client projects.''),
      (''Subscriptions'',
       mk_policy 12500 50000 ''Software, services, and publication subscriptions.'')]"

definition initial_database :: database where
  "initial_database =
     \<lparr>expenses = [], policies = map_of default_policies, conversion_rates = []\<rparr>"

text \<open>
  A travel expense of user \<^verbatim>\<open>u1\<close> in INR as the client sends it (no status), a host in
  UTC and one at UTC+05:30, both on 2024-03-14 at 09:00 UTC, and one at UTC-05:00 all
  year.
\<close>

definition travel :: "string \<Rightarrow> rat \<Rightarrow> string \<Rightarrow> string \<Rightarrow> expense" where
  "travel i a d descr =
     \<lparr>id' = Some i, userId = Some ''u1'', amount = Some a, currency = Some ''INR'',
      date = Some d, category = Some ''Travelling'', description = Some descr,
      receiptImage = None, status = None, notes' = None,
      createdAt = Some ''2024-03-14T09:00:00.000Z''\<rparr>"

definition utc :: runtime where
  "utc = example_runtime 0 1710406800000"

definition ist :: runtime where
  "ist = example_runtime 330 1710406800000"

definition est :: runtime where
  "est = example_runtime (- 300) 1710406800000"

text \<open>
  A zone with daylight saving, New York in 2024: five hours behind UTC, and four hours
  from 10 March 07:00 UTC (02:00 local time, which becomes 03:00) to 3 November 06:00 UTC
  (02:00 local time, which becomes 01:00). A local time that does not exist or exists
  twice is read with the offset before the change.
\<close>

definition new_york_2024 :: zone where
  "new_york_2024 t isUTC =
     (if isUTC
      then (if 1710054000000 \<le> t \<and> t < 1730613600000 then - 14400000 else - 18000000)
      else (if 1710039600000 \<le> t \<and> t < 1730599200000 then - 14400000 else - 18000000))"

definition nyc :: runtime where
  "nyc = (example_runtime 0 1710406800000)\<lparr>tz_offset := new_york_2024\<rparr>"

definition blank_form :: form where
  "blank_form =
     \<lparr>form_amount = 0, form_currency = ''INR'', form_date = ''2024-03-13'',
      form_category = ''Travelling'', form_description = ''Taxi to the airport'',
      form_receiptImage = None, form_fraudDetection = None\<rparr>"

definition empty_cache :: cache where
  "empty_cache = \<lparr>cachedRates = None, cacheTimestamp = 0\<rparr>"

text \<open>An answer of the rate provider that has a rate for USD only.\<close>

definition usd_only :: "(string \<rightharpoonup> rat) option" where
  "usd_only = Some (map_of [(''USD'', fl 0.012)])"

text \<open>
  Stored expenses of March 2024: three of user \<^verbatim>\<open>u1\<close> for travel in INR, one of
  another user, one of another category, one in another currency, and one of February.
\<close>

definition march_rows :: "expense list" where
  "march_rows =
     [(travel ''a'' 1500 ''2024-03-11'' ''Train to Pune'')\<lparr>status := Some ''approved''\<rparr>,
      (travel ''b'' 800 ''2024-03-12'' ''Hotel shuttle'')\<lparr>status := Some ''rejected''\<rparr>,
      (travel ''c'' 8000 ''2024-03-05'' ''Flight to Delhi'')\<lparr>status := Some ''pending''\<rparr>,
      (travel ''d'' 9000 ''2024-03-12'' ''Flight to Goa'')\<lparr>userId := Some ''u2''\<rparr>,
      (travel ''e'' 9000 ''2024-03-12'' ''Hotel'')\<lparr>category := Some ''Accommodation''\<rparr>,
      (travel ''f'' 9000 ''2024-03-12'' ''Taxi in Boston'')\<lparr>currency := Some ''USD''\<rparr>,
      (travel ''g'' 9000 ''2024-02-28'' ''Flight to Kochi'')\<lparr>status := Some ''approved''\<rparr>]"

section \<open>Properties\<close>

subsection \<open>Doubles\<close>

text \<open>
  The doubles of 0.1, 0.2 and 0.3, the sum of the first two, which is the double above
  the third, and whole numbers, which are doubles up to \<^verbatim>\<open>2^53\<close>.
\<close>

lemma fl_examples:
  "fl 0.1 = 3602879701896397 / 2 ^ 55 \<and> fl 0.2 = 3602879701896397 / 2 ^ 54 \<and>
   fl 0.3 = 5404319552844595 / 2 ^ 54 \<and>
   js_add (fl 0.1) (fl 0.2) = 5404319552844596 / 2 ^ 54 \<and>
   fl 3000 = 3000 \<and> fl (2 ^ 53) = 2 ^ 53 \<and> fl (2 ^ 53 + 1) = 2 ^ 53 \<and>
   fl (2 ^ 53 + 3) = 2 ^ 53 + 4 \<and> fl (- (1 / 3)) = - (6004799503160661 / 2 ^ 54)"
  by code_simp

subsection \<open>Fraud flag and stored status\<close>

text \<open>
  C1. An expense on which \<^verbatim>\<open>detectFraud\<close> answers \<^verbatim>\<open>isFraud\<close> should end with status
  \<^verbatim>\<open>flagged\<close> whatever the policy totals, with the limit checks skipped. Evaluated on a
  taxi expense whose description contains \<^verbatim>\<open>cash\<close>: \<^verbatim>\<open>addExpense\<close> returns \<^verbatim>\<open>flagged\<close>, but
  the handler has run the limit checks and has stored \<^verbatim>\<open>approved\<close> for an amount of 100,
  and \<^verbatim>\<open>pending\<close> with the note of the weekly limit for an amount of 3000.
\<close>

theorem fraud_flag_overwritten:
  "fst (detectFraud utc (travel ''e0'' 100 ''2024-03-13'' ''Taxi, paid in cash'')) \<and>
   snd (addExpense utc ''e1'' utc initial_database
          (travel ''e0'' 100 ''2024-03-13'' ''Taxi, paid in cash'')) =
     Inr (''e1'', ''flagged'', ''Expense flagged for potential fraud'') \<and>
   map status (expenses (fst (addExpense utc ''e1'' utc initial_database
       (travel ''e0'' 100 ''2024-03-13'' ''Taxi, paid in cash'')))) = [Some ''approved''] \<and>
   map status (expenses (fst (addExpense utc ''e1'' utc initial_database
       (travel ''e0'' 3000 ''2024-03-13'' ''Taxi, paid in cash'')))) = [Some ''pending''] \<and>
   map notes' (expenses (fst (addExpense utc ''e1'' utc initial_database
       (travel ''e0'' 3000 ''2024-03-13'' ''Taxi, paid in cash'')))) =
     [Some ''Exceeds weekly limit of 2500 INR (weekly total: 3000.00)'']"
  by code_simp

subsection \<open>The decision against the limits\<close>

lemma check_policy_id: "check_policy rt db e = Some e' \<Longrightarrow> id' e' = id' e"
  by (auto simp: check_policy_def check_limits_def Let_def split: option.splits if_splits)

lemma or_str_Some: "or_str (Some s) d = (if s = [] then d else s)"
  by (simp add: or_str_def)

lemma or_null_nonempty: "s \<noteq> [] \<Longrightarrow> or_null (Some s) = Some s"
  by (simp add: or_null_def falsy_str_def)

lemma weekly_message_nonempty: "weekly_message rt p x \<noteq> []"
  by (simp add: weekly_message_def)

lemma monthly_message_nonempty: "monthly_message rt p x \<noteq> []"
  by (simp add: monthly_message_def)

lemma exceeds_iff:
  "exceeds limit tot \<longleftrightarrow> \<not> (limit = None \<or> limit = Some 0 \<or> tot \<le> the limit)"
  by (auto simp: exceeds_def split: option.splits)

lemma weeklyTotal_createdAt:
  "weeklyTotal rt db (e\<lparr>createdAt := c\<rparr>) t = weeklyTotal rt db e t"
  by (simp add: weeklyTotal_def)

lemma monthlyTotal_createdAt:
  "monthlyTotal rt db (e\<lparr>createdAt := c\<rparr>) t = monthlyTotal rt db e t"
  by (simp add: monthlyTotal_def)

text \<open>What the handler stores and answers once the decision is known.\<close>

lemma post_expenses_stored:
  assumes req: "\<not> required_missing body"
    and cp: "check_policy rt db
               (body\<lparr>createdAt := Some (or_str (createdAt body) (toISOString (clock rt)))\<rparr>) =
             Some e2"
    and fresh: "id' body \<notin> id' ` set (expenses db)"
  shows "post_expenses rt db body =
           (db\<lparr>expenses := expenses db @
                  [e2\<lparr>receiptImage := or_null (receiptImage e2),
                      status := Some (or_str (status e2) ''pending''),
                      notes' := or_null (notes' e2)\<rparr>]\<rparr>,
            Status201 (the (id' body), or_str (status e2) ''pending'',
                       response_message (or_str (status e2) ''pending'')))"
proof -
  have "id' e2 = id' body" using check_policy_id[OF cp] by simp
  then show ?thesis using req cp fresh by (simp add: post_expenses_def Let_def)
qed

lemma post_expenses_within:
  assumes req: "\<not> required_missing body"
    and pol: "policies db (the (category body)) = Some p"
    and dt: "Date_parse rt (the (date body)) = Some t"
    and fresh: "id' body \<notin> id' ` set (expenses db)"
    and w: "\<not> exceeds (weeklyLimit p) (weeklyTotal rt db body t)"
    and m: "\<not> exceeds (monthlyLimit p) (monthlyTotal rt db body t)"
  shows "post_expenses rt db body =
           (db\<lparr>expenses := expenses db @
                  [body\<lparr>createdAt := Some (or_str (createdAt body) (toISOString (clock rt))),
                        receiptImage := or_null (receiptImage body),
                        status := Some ''approved'',
                        notes' := or_null (notes' body)\<rparr>]\<rparr>,
            Status201 (the (id' body), ''approved'', response_message ''approved''))"
proof -
  have "check_policy rt db
          (body\<lparr>createdAt := Some (or_str (createdAt body) (toISOString (clock rt)))\<rparr>) =
        Some (body\<lparr>createdAt := Some (or_str (createdAt body) (toISOString (clock rt))),
                   status := Some ''approved''\<rparr>)"
    using pol dt w m
    by (simp add: check_policy_def check_limits_def weeklyTotal_createdAt monthlyTotal_createdAt)
  from post_expenses_stored[OF req this fresh] show ?thesis
    by (simp add: or_str_Some)
qed

lemma post_expenses_exceeding:
  assumes req: "\<not> required_missing body"
    and pol: "policies db (the (category body)) = Some p"
    and dt: "Date_parse rt (the (date body)) = Some t"
    and fresh: "id' body \<notin> id' ` set (expenses db)"
    and x: "exceeds (weeklyLimit p) (weeklyTotal rt db body t) \<or>
            exceeds (monthlyLimit p) (monthlyTotal rt db body t)"
    and msg: "msg = (if exceeds (weeklyLimit p) (weeklyTotal rt db body t)
                     then weekly_message rt p (weeklyTotal rt db body t)
                     else monthly_message rt p (monthlyTotal rt db body t))"
  shows "post_expenses rt db body =
           (db\<lparr>expenses := expenses db @
                  [body\<lparr>createdAt := Some (or_str (createdAt body) (toISOString (clock rt))),
                        receiptImage := or_null (receiptImage body),
                        status := Some ''pending'',
                        notes' := Some ((if falsy_str (notes' body) then []
                                         else the (notes' body) @ ''. '') @ msg)\<rparr>]\<rparr>,
            Status201 (the (id' body), ''pending'', response_message ''pending''))"
proof -
  have ne: "msg \<noteq> []"
    by (simp add: msg weekly_message_nonempty monthly_message_nonempty)
  have "check_policy rt db
          (body\<lparr>createdAt := Some (or_str (createdAt body) (toISOString (clock rt)))\<rparr>) =
        Some (body\<lparr>createdAt := Some (or_str (createdAt body) (toISOString (clock rt))),
                   status := Some ''pending'',
                   notes' := Some (if falsy_str (notes' body) then msg
                                   else the (notes' body) @ ''. '' @ msg)\<rparr>)"
    using pol dt x unfolding msg
    by (auto simp add: check_policy_def check_limits_def weeklyTotal_createdAt
          monthlyTotal_createdAt Let_def)
  from post_expenses_stored[OF req this fresh] ne show ?thesis
    by (simp add: or_str_Some or_null_nonempty)
qed

text \<open>
  The rows that a query for a total selects, written with the fields of the new
  expense, and the total as the handler computes it.
\<close>

lemma required_fields:
  assumes "\<not> required_missing body"
  shows "userId body = Some (the (userId body))" "category body = Some (the (category body))"
    "currency body = Some (the (currency body))" "amount body = Some (the (amount body))"
  using assms by (auto simp: required_missing_def falsy_str_def falsy_num_def split: option.splits)

lemma matches_fields:
  assumes "\<not> required_missing body"
  shows "matches (the (userId body)) (the (category body)) lo hi (the (currency body)) =
         (\<lambda>r. userId r = userId body \<and> category r = category body \<and>
              currency r = currency body \<and>
              (case date r of None \<Rightarrow> False | Some d \<Rightarrow> text_le lo d \<and> text_le d hi))"
proof
  fix r
  show "matches (the (userId body)) (the (category body)) lo hi (the (currency body)) r =
         (userId r = userId body \<and> category r = category body \<and>
              currency r = currency body \<and>
              (case date r of None \<Rightarrow> False | Some d \<Rightarrow> text_le lo d \<and> text_le d hi))"
    using required_fields(1-3)[OF assms] unfolding matches_def by metis
qed

lemma or_num_sql_sum:
  "or_num (sql_sum rt xs) 0 =
     (if [a. Some a \<leftarrow> xs] = [] then 0 else SQL_SUM rt [a. Some a \<leftarrow> xs])"
proof -
  define ys where "ys = [a. Some a \<leftarrow> xs]"
  have "or_num (if ys = [] then None else Some (SQL_SUM rt ys)) 0 =
        (if ys = [] then 0 else SQL_SUM rt ys)"
    by (cases "ys = []") (simp_all add: or_num_def)
  then show ?thesis unfolding ys_def sql_sum_def .
qed

lemma prior_total:
  assumes "\<not> required_missing body"
  shows "js_add (or_num (sum_amount rt rows (the (userId body)) (the (category body)) lo hi
                          (the (currency body))) 0) (the (amount body)) =
         fl ((if [a. Some a \<leftarrow> map amount
                     (filter (\<lambda>r. userId r = userId body \<and> category r = category body \<and>
                                  currency r = currency body \<and>
                                  (case date r of None \<Rightarrow> False
                                   | Some d \<Rightarrow> text_le lo d \<and> text_le d hi)) rows)] = []
              then 0
              else SQL_SUM rt [a. Some a \<leftarrow> map amount
                     (filter (\<lambda>r. userId r = userId body \<and> category r = category body \<and>
                                  currency r = currency body \<and>
                                  (case date r of None \<Rightarrow> False
                                   | Some d \<Rightarrow> text_le lo d \<and> text_le d hi)) rows)]) +
             the (amount body))"
  unfolding js_add_def sum_amount_def or_num_sql_sum matches_fields[OF assms] ..

text \<open>
  C2, as the handler decides it. Take a body that is not sent as \<^verbatim>\<open>flagged\<close>, with its
  required fields, a category that has a policy, a date that parses and an id not yet
  stored. The prior spend of a window is the SUM of the amounts of the stored rows with
  the user, the category and the currency of the new expense whose date lies, as TEXT,
  between the ISO timestamps of the bounds of the window, and 0 when there is no such
  amount; the total is the double nearest to the prior spend plus the new amount. The
  handler stores the expense and answers 201. The status is \<^verbatim>\<open>approved\<close> exactly when
  each of the weekly and the monthly total is at most its limit, a check being skipped
  when its limit is NULL or zero. Otherwise the status is \<^verbatim>\<open>pending\<close> and the note,
  appended to a note already sent, is the message of the weekly limit when that one is
  exceeded and else the message of the monthly limit, each with the limit, the currency
  of the policy and the total.
\<close>

theorem limits_decision:
  assumes req: "\<not> required_missing body"
    and nf: "status body \<noteq> Some ''flagged''"
    and pol: "policies db (the (category body)) = Some p"
    and dt: "Date_parse rt (the (date body)) = Some t"
    and fresh: "id' body \<notin> id' ` set (expenses db)"
  shows
    "(let prior = (\<lambda>lo hi.
            [a. Some a \<leftarrow> map amount
               (filter (\<lambda>r. userId r = userId body \<and> category r = category body \<and>
                            currency r = currency body \<and>
                            (case date r of None \<Rightarrow> False
                             | Some d \<Rightarrow> text_le (toISOString lo) d \<and> text_le d (toISOString hi)))
                       (expenses db))]);
          total = (\<lambda>xs. fl ((if xs = [] then 0 else SQL_SUM rt xs) + the (amount body)));
          wt = total (prior (startOfWeek (tz_offset rt) t) (endOfWeek (tz_offset rt) t));
          mt = total (prior (startOfMonth (tz_offset rt) t) (endOfMonth (tz_offset rt) t));
          weekly_ok = (weeklyLimit p = None \<or> weeklyLimit p = Some 0 \<or>
                       wt \<le> the (weeklyLimit p));
          monthly_ok = (monthlyLimit p = None \<or> monthlyLimit p = Some 0 \<or>
                        mt \<le> the (monthlyLimit p));
          st = (if weekly_ok \<and> monthly_ok then ''approved'' else ''pending'');
          limitMessage =
            (if \<not> weekly_ok
             then ''Exceeds weekly limit of '' @ Number_toString rt (the (weeklyLimit p)) @
                  '' '' @ template (policy_currency p) @ '' (weekly total: '' @
                  Number_toFixed2 rt wt @ '')''
             else ''Exceeds monthly limit of '' @ Number_toString rt (the (monthlyLimit p)) @
                  '' '' @ template (policy_currency p) @ '' (monthly total: '' @
                  Number_toFixed2 rt mt @ '')'');
          row = body\<lparr>createdAt := Some (or_str (createdAt body) (toISOString (clock rt))),
                     receiptImage := or_null (receiptImage body),
                     status := Some st,
                     notes' := (if weekly_ok \<and> monthly_ok then or_null (notes' body)
                                else Some ((if falsy_str (notes' body) then []
                                            else the (notes' body) @ ''. '') @ limitMessage))\<rparr>
      in post_expenses rt db body =
           (db\<lparr>expenses := expenses db @ [row]\<rparr>,
            Status201 (the (id' body), st,
                       if weekly_ok \<and> monthly_ok
                       then ''Expense approved automatically (within policy limits)''
                       else ''Expense submitted for approval'')))"
proof -
  define wt where "wt = weeklyTotal rt db body t"
  define mt where "mt = monthlyTotal rt db body t"
  have w: "fl ((if [a. Some a \<leftarrow> map amount
               (filter (\<lambda>r. userId r = userId body \<and> category r = category body \<and>
                            currency r = currency body \<and>
                            (case date r of None \<Rightarrow> False
                             | Some d \<Rightarrow> text_le (toISOString (startOfWeek (tz_offset rt) t)) d \<and>
                                 text_le d (toISOString (endOfWeek (tz_offset rt) t))))
                       (expenses db))] = [] then 0
           else SQL_SUM rt [a. Some a \<leftarrow> map amount
               (filter (\<lambda>r. userId r = userId body \<and> category r = category body \<and>
                            currency r = currency body \<and>
                            (case date r of None \<Rightarrow> False
                             | Some d \<Rightarrow> text_le (toISOString (startOfWeek (tz_offset rt) t)) d \<and>
                                 text_le d (toISOString (endOfWeek (tz_offset rt) t))))
                       (expenses db))]) + the (amount body)) = wt"
    unfolding wt_def weeklyTotal_def prior_total[OF req] ..
  have m: "fl ((if [a. Some a \<leftarrow> map amount
               (filter (\<lambda>r. userId r = userId body \<and> category r = category body \<and>
                            currency r = currency body \<and>
                            (case date r of None \<Rightarrow> False
                             | Some d \<Rightarrow> text_le (toISOString (startOfMonth (tz_offset rt) t)) d \<and>
                                 text_le d (toISOString (endOfMonth (tz_offset rt) t))))
                       (expenses db))] = [] then 0
           else SQL_SUM rt [a. Some a \<leftarrow> map amount
               (filter (\<lambda>r. userId r = userId body \<and> category r = category body \<and>
                            currency r = currency body \<and>
                            (case date r of None \<Rightarrow> False
                             | Some d \<Rightarrow> text_le (toISOString (startOfMonth (tz_offset rt) t)) d \<and>
                                 text_le d (toISOString (endOfMonth (tz_offset rt) t))))
                       (expenses db))]) + the (amount body)) = mt"
    unfolding mt_def monthlyTotal_def prior_total[OF req] ..
  have eqw: "(weeklyLimit p = None \<or> weeklyLimit p = Some 0 \<or> wt \<le> the (weeklyLimit p)) =
             (\<not> exceeds (weeklyLimit p) wt)"
    by (simp add: exceeds_iff)
  have eqm: "(monthlyLimit p = None \<or> monthlyLimit p = Some 0 \<or> mt \<le> the (monthlyLimit p)) =
             (\<not> exceeds (monthlyLimit p) mt)"
    by (simp add: exceeds_iff)
  show ?thesis
  proof (cases "exceeds (weeklyLimit p) wt \<or> exceeds (monthlyLimit p) mt")
    case False
    then have ok: "\<not> exceeds (weeklyLimit p) (weeklyTotal rt db body t)"
      "\<not> exceeds (monthlyLimit p) (monthlyTotal rt db body t)" by (simp_all add: wt_def mt_def)
    have c: "(\<not> exceeds (weeklyLimit p) wt \<and> \<not> exceeds (monthlyLimit p) mt) = True"
      using False by simp
    show ?thesis
      unfolding Let_def w m eqw eqm c if_True
      using post_expenses_within[OF req pol dt fresh ok]
      by (simp add: response_message_def)
  next
    case True
    then have x: "exceeds (weeklyLimit p) (weeklyTotal rt db body t) \<or>
        exceeds (monthlyLimit p) (monthlyTotal rt db body t)" by (simp add: wt_def mt_def)
    have c: "(\<not> exceeds (weeklyLimit p) wt \<and> \<not> exceeds (monthlyLimit p) mt) = False"
      using True by auto
    show ?thesis
      unfolding Let_def w m eqw eqm c if_False not_not
      using post_expenses_exceeding[OF req pol dt fresh x refl]
      by (simp add: response_message_def weekly_message_def monthly_message_def wt_def mt_def)
  qed
qed

text \<open>
  Over the stored expenses of March: the week of Wednesday 2024-03-13 holds 1500 and
  800, the month 8000 more, and the rows of another user, category or currency do not
  count. With a new expense of 400 the weekly total is 2700, above the limit of 2500
  (the monthly total of 10700 is above its limit too: the note names the weekly limit);
  with one of 100 only the monthly total, 10400, is above its limit of 10000; and one of
  100 dated 2024-02-20, with 9000 stored in February, is approved.
\<close>

theorem limits_decision_witness:
  "snd (post_expenses utc (initial_database\<lparr>expenses := march_rows\<rparr>)
          (travel ''e1'' 400 ''2024-03-13'' ''Taxi'')) =
     Status201 (''e1'', ''pending'', ''Expense submitted for approval'') \<and>
   last (expenses (fst (post_expenses utc (initial_database\<lparr>expenses := march_rows\<rparr>)
                          (travel ''e1'' 400 ''2024-03-13'' ''Taxi'')))) =
     (travel ''e1'' 400 ''2024-03-13'' ''Taxi'')
        \<lparr>status := Some ''pending'',
         notes' := Some ''Exceeds weekly limit of 2500 INR (weekly total: 2700.00)''\<rparr> \<and>
   last (expenses (fst (post_expenses utc (initial_database\<lparr>expenses := march_rows\<rparr>)
                          (travel ''e2'' 100 ''2024-03-13'' ''Bus'')))) =
     (travel ''e2'' 100 ''2024-03-13'' ''Bus'')
        \<lparr>status := Some ''pending'',
         notes' := Some ''Exceeds monthly limit of 10000 INR (monthly total: 10400.00)''\<rparr> \<and>
   last (expenses (fst (post_expenses utc (initial_database\<lparr>expenses := march_rows\<rparr>)
                          (travel ''e3'' 100 ''2024-02-20'' ''Bus'')))) =
     (travel ''e3'' 100 ''2024-02-20'' ''Bus'')\<lparr>status := Some ''approved''\<rparr>"
proof -
  let ?db = "initial_database\<lparr>expenses := march_rows\<rparr>"
  let ?p = "mk_policy 2500 10000 ''Transportation costs including airfare, train, taxi, etc.''"
  have pol: "policies ?db (the (category (travel i a d s))) = Some ?p" for i a d s
    by (simp add: initial_database_def travel_def default_policies_def)
  have req: "\<not> required_missing (travel ''e1'' 400 ''2024-03-13'' ''Taxi'')"
    "\<not> required_missing (travel ''e2'' 100 ''2024-03-13'' ''Bus'')"
    "\<not> required_missing (travel ''e3'' 100 ''2024-02-20'' ''Bus'')"
    by code_simp+
  have nf: "status (travel i a d s) \<noteq> Some ''flagged''" for i a d s
    by (simp add: travel_def)
  have dt: "Date_parse utc (the (date (travel i a ''2024-03-13'' s))) = Some 1710288000000"
    "Date_parse utc (the (date (travel i a ''2024-02-20'' s))) = Some 1708387200000" for i a s
    unfolding travel_def by code_simp+
  have fresh: "id' (travel ''e1'' a d s) \<notin> id' ` set (expenses ?db)"
    "id' (travel ''e2'' a d s) \<notin> id' ` set (expenses ?db)"
    "id' (travel ''e3'' a d s) \<notin> id' ` set (expenses ?db)" for a d s
    by (simp_all add: march_rows_def travel_def)
  have iso:
    "toISOString (startOfWeek (tz_offset utc) 1710288000000) = ''2024-03-10T00:00:00.000Z''"
    "toISOString (endOfWeek (tz_offset utc) 1710288000000) = ''2024-03-16T23:59:59.999Z''"
    "toISOString (startOfMonth (tz_offset utc) 1710288000000) = ''2024-03-01T00:00:00.000Z''"
    "toISOString (endOfMonth (tz_offset utc) 1710288000000) = ''2024-03-31T23:59:59.000Z''"
    "toISOString (startOfWeek (tz_offset utc) 1708387200000) = ''2024-02-18T00:00:00.000Z''"
    "toISOString (endOfWeek (tz_offset utc) 1708387200000) = ''2024-02-24T23:59:59.999Z''"
    "toISOString (startOfMonth (tz_offset utc) 1708387200000) = ''2024-02-01T00:00:00.000Z''"
    "toISOString (endOfMonth (tz_offset utc) 1708387200000) = ''2024-02-29T23:59:59.000Z''"
    by code_simp+
  let ?prior = "\<lambda>body lo hi.
        [a. Some a \<leftarrow> map amount
           (filter (\<lambda>r. userId r = userId body \<and> category r = category body \<and>
                        currency r = currency body \<and>
                        (case date r of None \<Rightarrow> False | Some d \<Rightarrow> text_le lo d \<and> text_le d hi))
                   (expenses ?db))]"
  have rows:
    "?prior (travel ''e1'' 400 ''2024-03-13'' ''Taxi'') ''2024-03-10T00:00:00.000Z''
       ''2024-03-16T23:59:59.999Z'' = [1500, 800]"
    "?prior (travel ''e1'' 400 ''2024-03-13'' ''Taxi'') ''2024-03-01T00:00:00.000Z''
       ''2024-03-31T23:59:59.000Z'' = [1500, 800, 8000]"
    "?prior (travel ''e2'' 100 ''2024-03-13'' ''Bus'') ''2024-03-10T00:00:00.000Z''
       ''2024-03-16T23:59:59.999Z'' = [1500, 800]"
    "?prior (travel ''e2'' 100 ''2024-03-13'' ''Bus'') ''2024-03-01T00:00:00.000Z''
       ''2024-03-31T23:59:59.000Z'' = [1500, 800, 8000]"
    "?prior (travel ''e3'' 100 ''2024-02-20'' ''Bus'') ''2024-02-18T00:00:00.000Z''
       ''2024-02-24T23:59:59.999Z'' = []"
    "?prior (travel ''e3'' 100 ''2024-02-20'' ''Bus'') ''2024-02-01T00:00:00.000Z''
       ''2024-02-29T23:59:59.000Z'' = [9000]"
    by code_simp+
  have totals:
    "fl ((if [1500, 800] = [] then 0 else SQL_SUM utc [1500, 800]) +
         the (amount (travel ''e1'' 400 ''2024-03-13'' ''Taxi''))) = 2700"
    "fl ((if [1500, 800, 8000] = [] then 0 else SQL_SUM utc [1500, 800, 8000]) +
         the (amount (travel ''e1'' 400 ''2024-03-13'' ''Taxi''))) = 10700"
    "fl ((if [1500, 800] = [] then 0 else SQL_SUM utc [1500, 800]) +
         the (amount (travel ''e2'' 100 ''2024-03-13'' ''Bus''))) = 2400"
    "fl ((if [1500, 800, 8000] = [] then 0 else SQL_SUM utc [1500, 800, 8000]) +
         the (amount (travel ''e2'' 100 ''2024-03-13'' ''Bus''))) = 10400"
    "fl ((if [] = [] then 0 else SQL_SUM utc []) +
         the (amount (travel ''e3'' 100 ''2024-02-20'' ''Bus''))) = 100"
    "fl ((if [9000] = [] then 0 else SQL_SUM utc [9000]) +
         the (amount (travel ''e3'' 100 ''2024-02-20'' ''Bus''))) = 9100"
    by code_simp+
  note t1 = limits_decision[OF req(1) nf pol dt(1) fresh(1), unfolded Let_def]
  note t2 = limits_decision[OF req(2) nf pol dt(1) fresh(2), unfolded Let_def]
  note t3 = limits_decision[OF req(3) nf pol dt(2) fresh(3), unfolded Let_def]
  show ?thesis unfolding t1 t2 t3 iso rows totals by code_simp
qed

text \<open>
  A weekly limit of zero is not enforced. The policy page stores one: saving a monthly
  limit of 1 sets the weekly limit to \<^verbatim>\<open>Math.round(1 / 4)\<close>. With limits of 0 a week and
  1 a month and one quarter stored in the week, an expense of one half has a weekly
  total of three quarters, above the weekly limit, and is approved.
\<close>

theorem zero_weekly_limit_counterexample:
  "policies (fst (handleSave default_policies initial_database
                    (Some (''Travelling'', mk_policy 2500 1 ''Tolls'')))) ''Travelling'' =
     Some (mk_policy 0 1 ''Tolls'') \<and>
   weeklyTotal utc
     (initial_database\<lparr>policies := [''Travelling'' \<mapsto> mk_policy 0 1 ''Tolls''],
        expenses := [(travel ''e0'' (1 / 4) ''2024-03-12'' ''Bridge toll'')
                       \<lparr>status := Some ''approved''\<rparr>]\<rparr>)
     (travel ''e1'' (1 / 2) ''2024-03-13'' ''Bridge toll'') 1710288000000 = 3 / 4 \<and>
   snd (post_expenses utc
          (initial_database\<lparr>policies := [''Travelling'' \<mapsto> mk_policy 0 1 ''Tolls''],
             expenses := [(travel ''e0'' (1 / 4) ''2024-03-12'' ''Bridge toll'')
                            \<lparr>status := Some ''approved''\<rparr>]\<rparr>)
          (travel ''e1'' (1 / 2) ''2024-03-13'' ''Bridge toll'')) =
     Status201 (''e1'', ''approved'', ''Expense approved automatically (within policy limits)'')"
  by code_simp

text \<open>
  The totals are sums of doubles: with 0.1 stored in the week, a new expense of 0.2 has
  a weekly total above 0.3 and is not approved under a weekly limit of 0.3.
\<close>

lemma sum_of_doubles_example:
  "weeklyTotal utc
     (initial_database\<lparr>policies := [''Travelling'' \<mapsto> mk_policy (fl 0.3) 10000 ''Tolls''],
        expenses := [(travel ''e0'' (fl 0.1) ''2024-03-12'' ''Bridge toll'')
                       \<lparr>status := Some ''approved''\<rparr>]\<rparr>)
     (travel ''e1'' (fl 0.2) ''2024-03-13'' ''Bridge toll'') 1710288000000 =
     fl 0.3 + 1 / 2 ^ 54 \<and>
   snd (post_expenses utc
          (initial_database\<lparr>policies := [''Travelling'' \<mapsto> mk_policy (fl 0.3) 10000 ''Tolls''],
             expenses := [(travel ''e0'' (fl 0.1) ''2024-03-12'' ''Bridge toll'')
                            \<lparr>status := Some ''approved''\<rparr>]\<rparr>)
          (travel ''e1'' (fl 0.2) ''2024-03-13'' ''Bridge toll'')) =
     Status201 (''e1'', ''pending'', ''Expense submitted for approval'')"
  by code_simp

subsection \<open>A category without a policy\<close>

text \<open>
  C3. For a body with its required fields whose category has no policy and whose id is
  not yet stored, the handler stores the expense with status \<^verbatim>\<open>pending\<close>, sets no note
  (the note is the one sent, NULL when none or an empty one was sent), and answers 201
  with status \<^verbatim>\<open>pending\<close>: no error response.
\<close>

theorem no_policy_pending:
  assumes req: "\<not> required_missing body"
    and nopol: "policies db (the (category body)) = None"
    and fresh: "id' body \<notin> id' ` set (expenses db)"
  shows "post_expenses rt db body =
           (db\<lparr>expenses := expenses db @
                [body\<lparr>createdAt := Some (or_str (createdAt body) (toISOString (clock rt))),
                      receiptImage := or_null (receiptImage body),
                      status := Some ''pending'',
                      notes' := or_null (notes' body)\<rparr>]\<rparr>,
            Status201 (the (id' body), ''pending'', ''Expense submitted for approval''))"
  using assms
  by (simp add: post_expenses_def check_policy_def Let_def or_str_def response_message_def)

theorem no_policy_pending_witness:
  "snd (post_expenses utc (initial_database\<lparr>policies := Map.empty\<rparr>)
          (travel ''e1'' 3000 ''2024-03-13'' ''Flight to Pune'')) =
     Status201 (''e1'', ''pending'', ''Expense submitted for approval'') \<and>
   expenses (fst (post_expenses utc (initial_database\<lparr>policies := Map.empty\<rparr>)
                    (travel ''e1'' 3000 ''2024-03-13'' ''Flight to Pune''))) =
     [(travel ''e1'' 3000 ''2024-03-13'' ''Flight to Pune'')\<lparr>status := Some ''pending''\<rparr>]"
proof -
  let ?e = "travel ''e1'' 3000 ''2024-03-13'' ''Flight to Pune''"
  let ?db = "initial_database\<lparr>policies := Map.empty\<rparr>"
  have h1: "\<not> required_missing ?e" by code_simp
  have h2: "policies ?db (the (category ?e)) = None" by simp
  have h3: "id' ?e \<notin> id' ` set (expenses ?db)" by (simp add: initial_database_def)
  note t = no_policy_pending[OF h1 h2 h3]
  show ?thesis unfolding t by code_simp
qed

subsection \<open>The two windows\<close>

text \<open>
  C4. The weekly window should be the Sunday to Saturday week, and the monthly window
  the month, that contain the date of the expense. The handler reads the date string
  with \<^verbatim>\<open>new Date\<close>, which takes a date without a time as midnight UTC, and then takes
  the day, the month and the year of that instant in the local time of the server.
  Evaluated on a server five hours behind UTC: an expense dated Sunday 2024-03-10 (day
  19792) gets the week before, from Sunday 3 March (day 19785) to Saturday 9 March
  (day 19791) in local time, which does not contain its date. A stored expense of 2000
  dated 2024-03-05 is counted, so that a new expense of 1000 is held back under a weekly
  limit of 2500, and one dated 2024-03-12 is not counted, as it is with the server in
  UTC. The monthly window of an expense dated 2024-03-01 is February.
\<close>

theorem window_of_the_week_before:
  "Date_parse est ''2024-03-10'' = Some 1710028800000 \<and>
   Day 1710028800000 = 19792 \<and> WeekDay 19792 = 0 \<and>
   Day (LocalTime (tz_offset est) (startOfWeek (tz_offset est) 1710028800000)) = 19785 \<and>
   Day (LocalTime (tz_offset est) (endOfWeek (tz_offset est) 1710028800000)) = 19791 \<and>
   toISOString (startOfWeek (tz_offset est) 1710028800000) = ''2024-03-03T05:00:00.000Z'' \<and>
   toISOString (endOfWeek (tz_offset est) 1710028800000) = ''2024-03-10T04:59:59.999Z'' \<and>
   \<not> (Day 1710028800000 \<le>
        Day (LocalTime (tz_offset est) (endOfWeek (tz_offset est) 1710028800000))) \<and>
   weeklyTotal est
     (initial_database\<lparr>expenses :=
        [(travel ''e0'' 2000 ''2024-03-05'' ''Train to Pune'')\<lparr>status := Some ''approved''\<rparr>]\<rparr>)
     (travel ''e1'' 1000 ''2024-03-10'' ''Taxi'') 1710028800000 = 3000 \<and>
   snd (post_expenses est
     (initial_database\<lparr>expenses :=
        [(travel ''e0'' 2000 ''2024-03-05'' ''Train to Pune'')\<lparr>status := Some ''approved''\<rparr>]\<rparr>)
     (travel ''e1'' 1000 ''2024-03-10'' ''Taxi'')) =
     Status201 (''e1'', ''pending'', ''Expense submitted for approval'') \<and>
   weeklyTotal est
     (initial_database\<lparr>expenses :=
        [(travel ''e0'' 2000 ''2024-03-12'' ''Train to Pune'')\<lparr>status := Some ''approved''\<rparr>]\<rparr>)
     (travel ''e1'' 1000 ''2024-03-10'' ''Taxi'') 1710028800000 = 1000 \<and>
   weeklyTotal utc
     (initial_database\<lparr>expenses :=
        [(travel ''e0'' 2000 ''2024-03-12'' ''Train to Pune'')\<lparr>status := Some ''approved''\<rparr>]\<rparr>)
     (travel ''e1'' 1000 ''2024-03-10'' ''Taxi'') 1710028800000 = 3000 \<and>
   Date_parse est ''2024-03-01'' = Some 1709251200000 \<and>
   toISOString (startOfMonth (tz_offset est) 1709251200000) = ''2024-02-01T05:00:00.000Z'' \<and>
   toISOString (endOfMonth (tz_offset est) 1709251200000) = ''2024-03-01T04:59:59.000Z''"
  by code_simp

text \<open>
  With the server in New York the window of Sunday 2024-03-10 is the same week before,
  and the week of Wednesday 2024-03-13, in which the clocks are set forward, is an hour
  shorter.
\<close>

lemma daylight_saving_example:
  "toISOString (startOfWeek (tz_offset nyc) 1710028800000) = ''2024-03-03T05:00:00.000Z'' \<and>
   toISOString (endOfWeek (tz_offset nyc) 1710028800000) = ''2024-03-10T04:59:59.999Z'' \<and>
   toISOString (startOfWeek (tz_offset nyc) 1710288000000) = ''2024-03-10T05:00:00.000Z'' \<and>
   toISOString (endOfWeek (tz_offset nyc) 1710288000000) = ''2024-03-17T03:59:59.999Z''"
  by code_simp

text \<open>
  What does hold of the two windows, for a server whose zone keeps one offset all year.
  First the calendar: years, months and the methods of Date.
\<close>

lemma div_succ:
  fixes x k :: int
  assumes k: "0 < k"
  shows "(x + 1) div k = x div k + (if (x + 1) mod k = 0 then 1 else 0)"
proof (cases "(x + 1) mod k = 0")
  case True
  then obtain q where q: "x + 1 = k * q" by (auto simp: mod_eq_0_iff_dvd)
  then have "x = k * (q - 1) + (k - 1)" by (simp add: algebra_simps)
  then have "x div k = q - 1" using k by (intro int_div_pos_eq[where r = "k - 1"]) auto
  moreover have "(x + 1) div k = q" using q k by simp
  ultimately show ?thesis using True by simp
next
  case False
  define r where "r = (x + 1) mod k"
  have r: "0 < r" "r < k"
    using False pos_mod_sign[OF k, of "x + 1"] pos_mod_bound[OF k, of "x + 1"]
    unfolding r_def by linarith+
  have "x + 1 = k * ((x + 1) div k) + r" by (simp add: r_def)
  then have "x = k * ((x + 1) div k) + (r - 1)" by simp
  then have "x div k = (x + 1) div k" using r by (intro int_div_pos_eq[where r = "r - 1"]) auto
  then show ?thesis using False by simp
qed


lemma div_lower: "0 < k \<Longrightarrow> k * (x div k) \<le> (x::int)"
  using mult_div_mod_eq[of k x] pos_mod_sign[of k x] by linarith

lemma div_upper: "0 < k \<Longrightarrow> (x::int) < k * (x div k) + k"
  using mult_div_mod_eq[of k x] pos_mod_bound[of k x] by linarith

lemma mod_shift: "(y + k * c) mod k = (y::int) mod k"
  by simp

lemma DayFromYear_Suc: "DayFromYear (y + 1) = DayFromYear y + DaysInYear y"
proof -
  have "(y - 1969 + 1) mod 4 = y mod 4" using mod_shift[of y 4 "- 492"] by simp
  then have a: "(y + 1 - 1969) div 4 = (y - 1969) div 4 + (if y mod 4 = 0 then 1 else 0)"
    using div_succ[of 4 "y - 1969"] by (simp add: algebra_simps)
  have "(y - 1901 + 1) mod 100 = y mod 100" using mod_shift[of y 100 "- 19"] by simp
  then have b: "(y + 1 - 1901) div 100 = (y - 1901) div 100 + (if y mod 100 = 0 then 1 else 0)"
    using div_succ[of 100 "y - 1901"] by (simp add: algebra_simps)
  have "(y - 1601 + 1) mod 400 = y mod 400" using mod_shift[of y 400 "- 4"] by simp
  then have c: "(y + 1 - 1601) div 400 = (y - 1601) div 400 + (if y mod 400 = 0 then 1 else 0)"
    using div_succ[of 400 "y - 1601"] by (simp add: algebra_simps)
  have d: "y mod 4 = 0" if "y mod 100 = 0"
  proof -
    have "100 dvd y" using that by (simp add: mod_eq_0_iff_dvd)
    moreover have "(4::int) dvd 100" by simp
    ultimately have "4 dvd y" by (rule dvd_trans[rotated])
    then show ?thesis by (simp add: mod_eq_0_iff_dvd)
  qed
  have e: "y mod 100 = 0" if "y mod 400 = 0"
  proof -
    have "400 dvd y" using that by (simp add: mod_eq_0_iff_dvd)
    moreover have "(100::int) dvd 400" by simp
    ultimately have "100 dvd y" by (rule dvd_trans[rotated])
    then show ?thesis by (simp add: mod_eq_0_iff_dvd)
  qed
  show ?thesis
    unfolding DayFromYear_def DaysInYear_def InLeapYear_def a b c using d e by auto
qed


lemma est_upper: "DayFromYear (1970 + (400 * d) div 146097) \<le> d + 1"
proof -
  define q where "q = (400 * d) div 146097"
  have e: "DayFromYear (1970 + q) = 365 * q + (q + 1) div 4 - (q + 69) div 100 + (q + 369) div 400"
    by (simp add: DayFromYear_def add.commute)
  have "146097 * q \<le> 400 * d" unfolding q_def by (rule div_lower) simp
  moreover have "4 * ((q + 1) div 4) \<le> q + 1" by (rule div_lower) simp
  moreover have "q + 69 < 100 * ((q + 69) div 100) + 100" by (rule div_upper) simp
  moreover have "400 * ((q + 369) div 400) \<le> q + 369" by (rule div_lower) simp
  ultimately have "DayFromYear (1970 + q) \<le> d + 1" unfolding e by linarith
  then show ?thesis by (simp add: q_def)
qed

lemma est_lower: "d - 1 \<le> DayFromYear (1970 + (400 * d) div 146097 + 1)"
proof -
  define q where "q = (400 * d) div 146097"
  define A where "A = (q + 2) div 4"
  define B where "B = (q + 70) div 100"
  define C where "C = (q + 370) div 400"
  have e: "DayFromYear (1970 + q + 1) = 365 * q + 365 + A - B + C"
    by (simp add: DayFromYear_def add.commute A_def B_def C_def)
  have "400 * d < 146097 * q + 146097" unfolding q_def by (rule div_upper) simp
  moreover have "q + 2 < 4 * A + 4" unfolding A_def by (rule div_upper) simp
  moreover have "100 * B \<le> q + 70" unfolding B_def by (rule div_lower) simp
  moreover have "q + 370 < 400 * C + 400" unfolding C_def by (rule div_upper) simp
  ultimately have "d - 1 \<le> DayFromYear (1970 + q + 1)" unfolding e by linarith
  then show ?thesis by (simp add: q_def)
qed

lemma DaysInYear_bounds: "365 \<le> DaysInYear y" "DaysInYear y \<le> 366"
  by (simp_all add: DaysInYear_def)

lemma YearFromDay_bounds:
  "DayFromYear (YearFromDay d) \<le> d \<and> d < DayFromYear (YearFromDay d + 1)"
proof -
  define e where "e = 1970 + (400 * d) div 146097"
  have u: "DayFromYear e \<le> d + 1" unfolding e_def by (rule est_upper)
  have l: "d - 1 \<le> DayFromYear (e + 1)" unfolding e_def by (rule est_lower)
  have s0: "DayFromYear e = DayFromYear (e - 1) + DaysInYear (e - 1)"
    using DayFromYear_Suc[of "e - 1"] by simp
  have s2: "DayFromYear (e + 1 + 1) = DayFromYear (e + 1) + DaysInYear (e + 1)"
    by (rule DayFromYear_Suc)
  show ?thesis
    unfolding YearFromDay_def e_def[symmetric] Let_def
    using u l s0 s2 DaysInYear_bounds[of "e - 1"] DaysInYear_bounds[of "e + 1"]
    by auto
qed

lemma DayFromYear_mono: "y \<le> z \<Longrightarrow> DayFromYear y \<le> DayFromYear z"
proof -
  have "DayFromYear y \<le> DayFromYear (y + int n)" for n
  proof (induction n)
    case 0 show ?case by simp
  next
    case (Suc n)
    have "DayFromYear (y + int (Suc n)) = DayFromYear (y + int n + 1)"
      by (simp add: algebra_simps)
    also have "\<dots> = DayFromYear (y + int n) + DaysInYear (y + int n)"
      by (rule DayFromYear_Suc)
    finally show ?case using Suc DaysInYear_bounds(1)[of "y + int n"] by linarith
  qed
  from this[of "nat (z - y)"] show "y \<le> z \<Longrightarrow> DayFromYear y \<le> DayFromYear z" by simp
qed

lemma YearFromDay_unique:
  assumes "DayFromYear y \<le> d" "d < DayFromYear (y + 1)"
  shows "YearFromDay d = y"
proof (rule ccontr)
  assume ne: "YearFromDay d \<noteq> y"
  have b: "DayFromYear (YearFromDay d) \<le> d" "d < DayFromYear (YearFromDay d + 1)"
    using YearFromDay_bounds[of d] by auto
  show False
  proof (cases "YearFromDay d < y")
    case True
    then have "DayFromYear (YearFromDay d + 1) \<le> DayFromYear y" by (intro DayFromYear_mono) simp
    then show False using assms b by linarith
  next
    case False
    then have "DayFromYear (y + 1) \<le> DayFromYear (YearFromDay d)" using ne by (intro DayFromYear_mono) simp
    then show False using assms b by linarith
  qed
qed


lemma DayWithinYear_bounds:
  "0 \<le> DayWithinYear d" "DayWithinYear d < DaysInYear (YearFromDay d)"
  using YearFromDay_bounds[of d] DayFromYear_Suc[of "YearFromDay d"]
  by (simp_all add: DayWithinYear_def)

lemma MonthFromDay_range: "0 \<le> MonthFromDay d" "MonthFromDay d \<le> 11"
  by (simp_all add: MonthFromDay_def Let_def)

lemma month_start_MonthFromDay:
  "month_start (InLeapYear (YearFromDay d)) (MonthFromDay d) \<le> DayWithinYear d"
  "DayWithinYear d < month_start (InLeapYear (YearFromDay d)) (MonthFromDay d + 1)"
  using DayWithinYear_bounds[of d]
  by (auto simp: MonthFromDay_def month_start_def DaysInYear_def Let_def)

lemma int_0_11_cases:
  assumes "0 \<le> (m::int)" "m \<le> 11"
  obtains "m = 0" | "m = 1" | "m = 2" | "m = 3" | "m = 4" | "m = 5" | "m = 6" | "m = 7"
    | "m = 8" | "m = 9" | "m = 10" | "m = 11"
proof -
  have "m = 0 \<or> m = 1 \<or> m = 2 \<or> m = 3 \<or> m = 4 \<or> m = 5 \<or> m = 6 \<or> m = 7 \<or>
      m = 8 \<or> m = 9 \<or> m = 10 \<or> m = 11"
    using assms by presburger
  then show thesis using that by blast
qed

lemma month_start_mono:
  assumes "0 \<le> m" "m \<le> 11"
  shows "0 \<le> month_start leap m" "month_start leap m < month_start leap (m + 1)"
    "month_start leap (m + 1) \<le> (if leap then 366 else 365)"
  using assms by (cases m rule: int_0_11_cases; simp add: month_start_def)+

lemma MonthFromDay_eq:
  assumes y: "YearFromDay d = y" and m: "0 \<le> m" "m \<le> 11"
    and lo: "month_start (InLeapYear y) m \<le> d - DayFromYear y"
    and hi: "d - DayFromYear y < month_start (InLeapYear y) (m + 1)"
  shows "MonthFromDay d = m"
  using m lo hi
  by (cases m rule: int_0_11_cases;
      simp add: MonthFromDay_def DayWithinYear_def y month_start_def Let_def split: if_splits)

lemma Day_MakeDate:
  assumes "0 \<le> time" "time < msPerDay"
  shows "Day (MakeDate d time) = d" "TimeWithinDay (MakeDate d time) = time"
  using assms by (simp_all add: Day_def TimeWithinDay_def MakeDate_def msPerDay_def)

lemma LocalTime_UTC: "LocalTime (fixed_zone tz) (UTC (fixed_zone tz) x) = x"
  by (simp add: LocalTime_def fixed_zone_def UTC_def fixed_zone_def)

lemma MakeDay_month:
  assumes "0 \<le> m" "m \<le> 11"
  shows "MakeDay y m dt = DayFromYear y + month_start (InLeapYear y) m + dt - 1"
proof -
  have "m div 12 = 0" "m mod 12 = m" using assms by simp_all
  then show ?thesis by (simp add: MakeDay_def)
qed

lemma MakeDay_next_month:
  assumes "0 \<le> m" "m \<le> 11"
  shows "MakeDay y (m + 1) dt = DayFromYear y + month_start (InLeapYear y) (m + 1) + dt - 1"
proof (cases "m = 11")
  case True
  have "MakeDay y 12 dt = DayFromYear (y + 1) + dt - 1"
    by (simp add: MakeDay_def month_start_def)
  then show ?thesis using True DayFromYear_Suc[of y]
    by (simp add: month_start_def DaysInYear_def)
next
  case False
  then show ?thesis using assms by (intro MakeDay_month) simp_all
qed

lemma MakeDay_own:
  "MakeDay (YearFromDay d) (MonthFromDay d) (DateFromDay d + k) = d + k"
  using MonthFromDay_range[of d]
  by (simp add: MakeDay_month DateFromDay_def DayWithinYear_def)

lemma setDate_shift: "setDate (fixed_zone tz) t (getDate (fixed_zone tz) t + k) = t + k * msPerDay"
proof -
  define lt where "lt = LocalTime (fixed_zone tz) t"
  have "MakeDate (Day lt + k) (TimeWithinDay lt) = lt + k * msPerDay"
    using mult_div_mod_eq[of msPerDay lt]
    by (simp add: MakeDate_def Day_def TimeWithinDay_def algebra_simps)
  then show ?thesis
    using MakeDay_own[of "Day lt" k]
    by (simp add: setDate_def getDate_def Let_def lt_def[symmetric])
       (simp add: lt_def LocalTime_def fixed_zone_def UTC_def fixed_zone_def)
qed

lemma Day_shift: "Day (t + k * msPerDay) = Day t + k"
  by (simp add: Day_def msPerDay_def)

lemma Day_shift_back: "Day (t - k * msPerDay) = Day t - k"
  using Day_shift[of t "- k"] by simp

lemma LocalTime_shift: "LocalTime (fixed_zone tz) (t + x) = LocalTime (fixed_zone tz) t + x"
  by (simp add: LocalTime_def fixed_zone_def)

lemma LocalTime_shift_back: "LocalTime (fixed_zone tz) (t - x) = LocalTime (fixed_zone tz) t - x"
  by (simp add: LocalTime_def fixed_zone_def)

lemma startOfWeek_eq:
  "startOfWeek (fixed_zone tz) t =
     UTC (fixed_zone tz) (MakeDate (Day (LocalTime (fixed_zone tz) t) - WeekDay (Day (LocalTime (fixed_zone tz) t))) 0)"
proof -
  have "setDate (fixed_zone tz) t (getDate (fixed_zone tz) t - getDay (fixed_zone tz) t) = t + (- getDay (fixed_zone tz) t) * msPerDay"
    using setDate_shift[of tz t "- getDay (fixed_zone tz) t"] by simp
  then show ?thesis
    by (simp add: startOfWeek_def setHours_def LocalTime_shift_back Day_shift_back MakeTime_def
          getDay_def)
qed

lemma endOfWeek_eq:
  "endOfWeek (fixed_zone tz) t =
     UTC (fixed_zone tz) (MakeDate (Day (LocalTime (fixed_zone tz) t) - WeekDay (Day (LocalTime (fixed_zone tz) t)) + 6) 86399999)"
proof -
  define sw where "sw = startOfWeek (fixed_zone tz) t"
  have d: "Day (LocalTime (fixed_zone tz) sw) = Day (LocalTime (fixed_zone tz) t) - WeekDay (Day (LocalTime (fixed_zone tz) t))"
    unfolding sw_def startOfWeek_eq LocalTime_UTC by (rule Day_MakeDate) (simp_all add: msPerDay_def)
  have "setDate (fixed_zone tz) sw (getDate (fixed_zone tz) sw + 6) = sw + 6 * msPerDay" by (rule setDate_shift)
  then show ?thesis
    unfolding endOfWeek_def sw_def[symmetric] Let_def
    by (simp add: setHours_def LocalTime_shift Day_shift MakeTime_def d)
qed

lemma WeekDay_range: "0 \<le> WeekDay d" "WeekDay d \<le> 6"
  by (simp_all add: WeekDay_def)

lemma WeekDay_start: "WeekDay (d - WeekDay d) = 0"
proof -
  have "(d - (d + 4) mod 7 + 4) mod 7 = ((d + 4) - (d + 4) mod 7) mod 7" by (simp add: algebra_simps)
  also have "\<dots> = 0" by (simp add: minus_mod_eq_mult_div)
  finally show ?thesis by (simp add: WeekDay_def)
qed

lemma WeekDay_end: "WeekDay (d - WeekDay d + 6) = 6"
proof -
  have "WeekDay (d - WeekDay d + 6) = ((d - WeekDay d + 4) + 6) mod 7" by (simp add: WeekDay_def algebra_simps)
  also have "\<dots> = ((d - WeekDay d + 4) mod 7 + 6) mod 7" by (simp add: mod_add_left_eq)
  also have "(d - WeekDay d + 4) mod 7 = 0" using WeekDay_start[of d] by (simp add: WeekDay_def)
  finally show ?thesis by simp
qed

lemma Day_le: "Day x * msPerDay \<le> x" "x < Day x * msPerDay + msPerDay"
  using mult_div_mod_eq[of msPerDay x] pos_mod_sign[of msPerDay x] pos_mod_bound[of msPerDay x]
  by (simp_all add: Day_def msPerDay_def)

lemma DaysInYear_leap: "DaysInYear y = (if InLeapYear y then 366 else 365)"
  by (simp add: DaysInYear_def)

lemma first_of_month:
  fixes y m :: int
  assumes m: "0 \<le> m" "m \<le> 11"
  defines "D \<equiv> DayFromYear y + month_start (InLeapYear y) m"
  shows "YearFromDay D = y" "MonthFromDay D = m" "DateFromDay D = 1"
proof -
  note ms = month_start_mono[OF m, of "InLeapYear y"]
  show y: "YearFromDay D = y"
  proof (rule YearFromDay_unique)
    show "DayFromYear y \<le> D" using ms by (simp add: D_def)
    show "D < DayFromYear (y + 1)"
      using ms by (simp add: D_def DayFromYear_Suc DaysInYear_leap split: if_splits)
  qed
  show mo: "MonthFromDay D = m"
    by (rule MonthFromDay_eq[OF y m]) (use ms in \<open>simp_all add: D_def\<close>)
  show "DateFromDay D = 1"
    by (simp add: DateFromDay_def DayWithinYear_def y mo) (simp add: D_def)
qed

lemma last_of_month:
  fixes y m :: int
  assumes m: "0 \<le> m" "m \<le> 11"
  defines "E \<equiv> DayFromYear y + month_start (InLeapYear y) (m + 1) - 1"
  shows "YearFromDay E = y" "MonthFromDay E = m"
proof -
  note ms = month_start_mono[OF m, of "InLeapYear y"]
  show y: "YearFromDay E = y"
  proof (rule YearFromDay_unique)
    show "DayFromYear y \<le> E" using ms by (simp add: E_def)
    show "E < DayFromYear (y + 1)"
      using ms by (simp add: E_def DayFromYear_Suc DaysInYear_leap split: if_splits)
  qed
  show "MonthFromDay E = m"
    by (rule MonthFromDay_eq[OF y m]) (use ms in \<open>simp_all add: E_def\<close>)
qed

lemma next_month_first:
  assumes m: "0 \<le> m" "m \<le> 11"
  shows "DateFromDay (DayFromYear y + month_start (InLeapYear y) (m + 1)) = 1"
proof (cases "m = 11")
  case True
  have "DayFromYear y + month_start (InLeapYear y) 12 = DayFromYear (y + 1) + month_start (InLeapYear (y + 1)) 0"
    by (simp add: month_start_def DayFromYear_Suc DaysInYear_leap)
  then show ?thesis using True first_of_month(3)[of 0 "y + 1"] by simp
next
  case False
  then show ?thesis using m by (intro first_of_month(3)) simp_all
qed

lemma month_contains:
  "DayFromYear (YearFromDay d) + month_start (InLeapYear (YearFromDay d)) (MonthFromDay d) \<le> d"
  "d \<le> DayFromYear (YearFromDay d) + month_start (InLeapYear (YearFromDay d)) (MonthFromDay d + 1) - 1"
  using month_start_MonthFromDay[of d] by (simp_all add: DayWithinYear_def)

lemma startOfMonth_eq:
  assumes "\<not> (0 \<le> getFullYear (fixed_zone tz) t \<and> getFullYear (fixed_zone tz) t \<le> 99)"
  shows "startOfMonth (fixed_zone tz) t =
     UTC (fixed_zone tz) (MakeDate (DayFromYear (getFullYear (fixed_zone tz) t) +
                       month_start (InLeapYear (getFullYear (fixed_zone tz) t)) (getMonth (fixed_zone tz) t)) 0)"
proof -
  have "MakeFullYear (getFullYear (fixed_zone tz) t) = getFullYear (fixed_zone tz) t"
    using assms by (simp add: MakeFullYear_def)
  then show ?thesis
    using MonthFromDay_range[of "Day (LocalTime (fixed_zone tz) t)"]
    by (simp add: startOfMonth_def new_Date_def MakeDay_month getMonth_def MakeTime_def)
qed

lemma endOfMonth_eq:
  assumes "\<not> (0 \<le> getFullYear (fixed_zone tz) t \<and> getFullYear (fixed_zone tz) t \<le> 99)"
  shows "endOfMonth (fixed_zone tz) t =
     UTC (fixed_zone tz) (MakeDate (DayFromYear (getFullYear (fixed_zone tz) t) +
                       month_start (InLeapYear (getFullYear (fixed_zone tz) t)) (getMonth (fixed_zone tz) t + 1) - 1)
                      86399000)"
proof -
  have "MakeFullYear (getFullYear (fixed_zone tz) t) = getFullYear (fixed_zone tz) t"
    using assms by (simp add: MakeFullYear_def)
  then show ?thesis
    using MonthFromDay_range[of "Day (LocalTime (fixed_zone tz) t)"]
    by (simp add: endOfMonth_def new_Date_def MakeDay_next_month getMonth_def MakeTime_def)
qed

text \<open>
  The windows in local time. Let \<open>t\<close> be the Date that the handler builds from the date
  of the expense, on a server whose local time is \<open>tz\<close> minutes ahead of UTC all year.
  The weekly window starts on a Sunday at 00:00:00.000 and ends on the Saturday six days
  later at 23:59:59.999, and it contains \<open>t\<close>. If the local year of \<open>t\<close> is not one of
  0..99, the monthly window starts on the first day of the local month of \<open>t\<close> at
  00:00:00.000 and ends on its last day (the day after is a first of the month) at
  23:59:59.000, and it contains the local day of \<open>t\<close>. The local day of \<open>t\<close> is the
  calendar date of a date-only string, which is parsed as midnight UTC, when the offset
  is at least zero and below one day.
\<close>

theorem windows_in_local_time:
  assumes yr: "\<not> (0 \<le> getFullYear (fixed_zone tz) t \<and> getFullYear (fixed_zone tz) t \<le> 99)"
  shows "getDay (fixed_zone tz) (startOfWeek (fixed_zone tz) t) = 0 \<and>
         TimeWithinDay (LocalTime (fixed_zone tz) (startOfWeek (fixed_zone tz) t)) = 0 \<and>
         getDay (fixed_zone tz) (endOfWeek (fixed_zone tz) t) = 6 \<and>
         Day (LocalTime (fixed_zone tz) (endOfWeek (fixed_zone tz) t)) = Day (LocalTime (fixed_zone tz) (startOfWeek (fixed_zone tz) t)) + 6 \<and>
         TimeWithinDay (LocalTime (fixed_zone tz) (endOfWeek (fixed_zone tz) t)) = MakeTime 23 59 59 999 \<and>
         startOfWeek (fixed_zone tz) t \<le> t \<and> t \<le> endOfWeek (fixed_zone tz) t \<and>
         getFullYear (fixed_zone tz) (startOfMonth (fixed_zone tz) t) = getFullYear (fixed_zone tz) t \<and>
         getMonth (fixed_zone tz) (startOfMonth (fixed_zone tz) t) = getMonth (fixed_zone tz) t \<and>
         getDate (fixed_zone tz) (startOfMonth (fixed_zone tz) t) = 1 \<and>
         TimeWithinDay (LocalTime (fixed_zone tz) (startOfMonth (fixed_zone tz) t)) = 0 \<and>
         getFullYear (fixed_zone tz) (endOfMonth (fixed_zone tz) t) = getFullYear (fixed_zone tz) t \<and>
         getMonth (fixed_zone tz) (endOfMonth (fixed_zone tz) t) = getMonth (fixed_zone tz) t \<and>
         getDate (fixed_zone tz) (endOfMonth (fixed_zone tz) t + msPerDay) = 1 \<and>
         TimeWithinDay (LocalTime (fixed_zone tz) (endOfMonth (fixed_zone tz) t)) = MakeTime 23 59 59 0 \<and>
         startOfMonth (fixed_zone tz) t \<le> t \<and>
         Day (LocalTime (fixed_zone tz) t) \<le> Day (LocalTime (fixed_zone tz) (endOfMonth (fixed_zone tz) t)) \<and>
         (TimeWithinDay t = 0 \<and> 0 \<le> tz \<and> tz < 1440 \<longrightarrow> Day (LocalTime (fixed_zone tz) t) = Day t)"
proof -
  define ld where "ld = Day (LocalTime (fixed_zone tz) t)"
  define wd where "wd = WeekDay ld"
  define y where "y = YearFromDay ld"
  define m where "m = MonthFromDay ld"
  define F where "F = DayFromYear y + month_start (InLeapYear y) m"
  define N where "N = DayFromYear y + month_start (InLeapYear y) (m + 1)"
  have mr: "0 \<le> m" "m \<le> 11" using MonthFromDay_range[of ld] by (simp_all add: m_def)
  have yF: "YearFromDay F = y" "MonthFromDay F = m" "DateFromDay F = 1"
    unfolding F_def by (rule first_of_month[OF mr])+
  have yE: "YearFromDay (N - 1) = y" "MonthFromDay (N - 1) = m"
    unfolding N_def by (rule last_of_month[OF mr])+
  have dN: "DateFromDay N = 1"
    unfolding N_def by (rule next_month_first[OF mr])
  have ym: "YearFromDay (Day (LocalTime (fixed_zone tz) t)) = y" "MonthFromDay (Day (LocalTime (fixed_zone tz) t)) = m"
    by (simp_all add: y_def m_def ld_def)
  have gy: "getFullYear (fixed_zone tz) t = y" by (simp add: getFullYear_def y_def ld_def)
  have gm: "getMonth (fixed_zone tz) t = m" by (simp add: getMonth_def m_def ld_def)
  have sw: "LocalTime (fixed_zone tz) (startOfWeek (fixed_zone tz) t) = MakeDate (ld - wd) 0"
    by (simp add: startOfWeek_eq LocalTime_UTC ld_def wd_def)
  have ew: "LocalTime (fixed_zone tz) (endOfWeek (fixed_zone tz) t) = MakeDate (ld - wd + 6) 86399999"
    by (simp add: endOfWeek_eq LocalTime_UTC ld_def wd_def)
  have sm: "LocalTime (fixed_zone tz) (startOfMonth (fixed_zone tz) t) = MakeDate F 0"
    by (simp add: startOfMonth_eq[OF yr] LocalTime_UTC gy gm F_def)
  have em: "LocalTime (fixed_zone tz) (endOfMonth (fixed_zone tz) t) = MakeDate (N - 1) 86399000"
    by (simp add: endOfMonth_eq[OF yr] LocalTime_UTC gy gm N_def)
  have em1: "LocalTime (fixed_zone tz) (endOfMonth (fixed_zone tz) t + msPerDay) = MakeDate N 86399000"
    by (simp add: LocalTime_shift em) (simp add: MakeDate_def algebra_simps)
  have dsw: "Day (MakeDate (ld - wd) 0) = ld - wd" "TimeWithinDay (MakeDate (ld - wd) 0) = 0"
    by (rule Day_MakeDate; simp add: msPerDay_def)+
  have dew: "Day (MakeDate (ld - wd + 6) 86399999) = ld - wd + 6"
    "TimeWithinDay (MakeDate (ld - wd + 6) 86399999) = 86399999"
    by (rule Day_MakeDate; simp add: msPerDay_def)+
  have dsm: "Day (MakeDate F 0) = F" "TimeWithinDay (MakeDate F 0) = 0"
    by (rule Day_MakeDate; simp add: msPerDay_def)+
  have dem: "Day (MakeDate (N - 1) 86399000) = N - 1"
    "TimeWithinDay (MakeDate (N - 1) 86399000) = 86399000"
    by (rule Day_MakeDate; simp add: msPerDay_def)+
  have dem1: "Day (MakeDate N 86399000) = N"
    by (rule Day_MakeDate; simp add: msPerDay_def)
  have wr: "0 \<le> wd" "wd \<le> 6" using WeekDay_range[of ld] by (simp_all add: wd_def)
  have lt: "LocalTime (fixed_zone tz) t = t + tz * 60000" by (simp add: LocalTime_def fixed_zone_def)
  have lb: "ld * msPerDay \<le> LocalTime (fixed_zone tz) t" "LocalTime (fixed_zone tz) t < ld * msPerDay + msPerDay"
    using Day_le[of "LocalTime (fixed_zone tz) t"] by (simp_all add: ld_def)
  have FN: "F \<le> ld" "ld \<le> N - 1"
    using month_contains[of ld] by (simp_all add: F_def N_def y_def m_def)
  have c1: "getDay (fixed_zone tz) (startOfWeek (fixed_zone tz) t) = 0"
    by (simp add: getDay_def sw dsw) (simp add: wd_def WeekDay_start)
  have c2: "TimeWithinDay (LocalTime (fixed_zone tz) (startOfWeek (fixed_zone tz) t)) = 0" by (simp add: sw dsw)
  have c3: "getDay (fixed_zone tz) (endOfWeek (fixed_zone tz) t) = 6"
    by (simp add: getDay_def ew dew) (simp add: wd_def WeekDay_end)
  have c4: "Day (LocalTime (fixed_zone tz) (endOfWeek (fixed_zone tz) t)) = Day (LocalTime (fixed_zone tz) (startOfWeek (fixed_zone tz) t)) + 6"
    by (simp add: sw ew dsw dew)
  have c5: "TimeWithinDay (LocalTime (fixed_zone tz) (endOfWeek (fixed_zone tz) t)) = MakeTime 23 59 59 999"
    by (simp add: ew dew MakeTime_def)
  have c6: "startOfWeek (fixed_zone tz) t \<le> t"
  proof -
    have "LocalTime (fixed_zone tz) (startOfWeek (fixed_zone tz) t) \<le> LocalTime (fixed_zone tz) t"
      using wr lb by (simp add: sw MakeDate_def msPerDay_def)
    then show ?thesis by (simp add: LocalTime_def fixed_zone_def)
  qed
  have c7: "t \<le> endOfWeek (fixed_zone tz) t"
  proof -
    have "LocalTime (fixed_zone tz) t \<le> LocalTime (fixed_zone tz) (endOfWeek (fixed_zone tz) t)"
      using wr lb by (simp add: ew MakeDate_def msPerDay_def)
    then show ?thesis by (simp add: LocalTime_def fixed_zone_def)
  qed
  have c8: "getFullYear (fixed_zone tz) (startOfMonth (fixed_zone tz) t) = getFullYear (fixed_zone tz) t"
    by (simp add: getFullYear_def sm dsm yF ym)
  have c9: "getMonth (fixed_zone tz) (startOfMonth (fixed_zone tz) t) = getMonth (fixed_zone tz) t"
    by (simp add: getMonth_def sm dsm yF ym)
  have c10: "getDate (fixed_zone tz) (startOfMonth (fixed_zone tz) t) = 1"
    by (simp add: getDate_def sm dsm yF)
  have c11: "TimeWithinDay (LocalTime (fixed_zone tz) (startOfMonth (fixed_zone tz) t)) = 0" by (simp add: sm dsm)
  have c12: "getFullYear (fixed_zone tz) (endOfMonth (fixed_zone tz) t) = getFullYear (fixed_zone tz) t"
    by (simp add: getFullYear_def em dem yE ym)
  have c13: "getMonth (fixed_zone tz) (endOfMonth (fixed_zone tz) t) = getMonth (fixed_zone tz) t"
    by (simp add: getMonth_def em dem yE ym)
  have c14: "getDate (fixed_zone tz) (endOfMonth (fixed_zone tz) t + msPerDay) = 1"
    by (simp add: getDate_def em1 dem1 dN)
  have c15: "TimeWithinDay (LocalTime (fixed_zone tz) (endOfMonth (fixed_zone tz) t)) = MakeTime 23 59 59 0"
    by (simp add: em dem MakeTime_def)
  have c16: "startOfMonth (fixed_zone tz) t \<le> t"
  proof -
    have "LocalTime (fixed_zone tz) (startOfMonth (fixed_zone tz) t) \<le> LocalTime (fixed_zone tz) t"
      using FN lb by (simp add: sm MakeDate_def msPerDay_def)
    then show ?thesis by (simp add: LocalTime_def fixed_zone_def)
  qed
  have c17: "Day (LocalTime (fixed_zone tz) t) \<le> Day (LocalTime (fixed_zone tz) (endOfMonth (fixed_zone tz) t))"
    using FN by (simp add: em dem ld_def)
  have c18: "TimeWithinDay t = 0 \<and> 0 \<le> tz \<and> tz < 1440 \<longrightarrow> Day (LocalTime (fixed_zone tz) t) = Day t"
  proof
    assume a: "TimeWithinDay t = 0 \<and> 0 \<le> tz \<and> tz < 1440"
    then have "t = Day t * msPerDay"
      using mult_div_mod_eq[of msPerDay t] by (simp add: Day_def TimeWithinDay_def mult.commute)
    then have "LocalTime (fixed_zone tz) t = MakeDate (Day t) (tz * 60000)"
      by (simp add: LocalTime_def fixed_zone_def MakeDate_def)
    moreover have "Day (MakeDate (Day t) (tz * 60000)) = Day t"
      by (rule Day_MakeDate) (use a in \<open>simp_all add: msPerDay_def\<close>)
    ultimately show "Day (LocalTime (fixed_zone tz) t) = Day t" by simp
  qed
  show ?thesis
    using c1 c2 c3 c4 c5 c6 c7 c8 c9 c10 c11 c12 c13 c14 c15 c16 c17 c18 by blast
qed

text \<open>The windows of Wednesday 2024-03-13 on a server at UTC+05:30.\<close>

theorem windows_in_local_time_witness:
  "getDay (fixed_zone 330) (startOfWeek (fixed_zone 330) 1710288000000) = 0 \<and>
   getDay (fixed_zone 330) (endOfWeek (fixed_zone 330) 1710288000000) = 6 \<and>
   startOfWeek (fixed_zone 330) 1710288000000 \<le> 1710288000000 \<and>
   1710288000000 \<le> endOfWeek (fixed_zone 330) 1710288000000 \<and>
   getMonth (fixed_zone 330) (startOfMonth (fixed_zone 330) 1710288000000) = getMonth (fixed_zone 330) 1710288000000 \<and>
   getDate (fixed_zone 330) (startOfMonth (fixed_zone 330) 1710288000000) = 1 \<and>
   getDate (fixed_zone 330) (endOfMonth (fixed_zone 330) 1710288000000 + msPerDay) = 1 \<and>
   Day (LocalTime (fixed_zone 330) 1710288000000) \<le> Day (LocalTime (fixed_zone 330) (endOfMonth (fixed_zone 330) 1710288000000)) \<and>
   Day (LocalTime (fixed_zone 330) 1710288000000) = Day 1710288000000"
proof -
  have h: "\<not> (0 \<le> getFullYear (fixed_zone 330) 1710288000000 \<and> getFullYear (fixed_zone 330) 1710288000000 \<le> 99)"
    by code_simp
  have d: "TimeWithinDay 1710288000000 = 0 \<and> (0::int) \<le> 330 \<and> (330::int) < 1440"
    by code_simp
  from windows_in_local_time[OF h] d show ?thesis by blast
qed

subsection \<open>Rows on the first day of a window\<close>

lemma matches_status:
  "matches uid cat lo hi cur (r\<lparr>status := s\<rparr>) = matches uid cat lo hi cur r"
  by (simp add: matches_def)

lemma sum_amount_status:
  "sum_amount rt (map (\<lambda>r. r\<lparr>status := f r\<rparr>) rows) uid cat lo hi cur =
   sum_amount rt rows uid cat lo hi cur"
proof -
  have "map amount (filter (matches uid cat lo hi cur) (map (\<lambda>r. r\<lparr>status := f r\<rparr>) rows)) =
        map amount (filter (matches uid cat lo hi cur) rows)"
    by (induction rows) (simp_all add: matches_status)
  then show ?thesis by (simp add: sum_amount_def)
qed

text \<open>
  Each total is the double nearest to the sum of the amounts of the stored rows that the
  query matches (0 when there is none) plus the new amount, and neither total changes
  when the statuses of the stored rows are changed.
\<close>

theorem totals_are_sums:
  "weeklyTotal rt db e t =
     fl ((if [a. Some a \<leftarrow> map amount
                 (filter (matches (the (userId e)) (the (category e))
                            (toISOString (startOfWeek (tz_offset rt) t))
                            (toISOString (endOfWeek (tz_offset rt) t)) (the (currency e)))
                         (expenses db))] = [] then 0
          else SQL_SUM rt [a. Some a \<leftarrow> map amount
                 (filter (matches (the (userId e)) (the (category e))
                            (toISOString (startOfWeek (tz_offset rt) t))
                            (toISOString (endOfWeek (tz_offset rt) t)) (the (currency e)))
                         (expenses db))]) + the (amount e)) \<and>
   monthlyTotal rt db e t =
     fl ((if [a. Some a \<leftarrow> map amount
                 (filter (matches (the (userId e)) (the (category e))
                            (toISOString (startOfMonth (tz_offset rt) t))
                            (toISOString (endOfMonth (tz_offset rt) t)) (the (currency e)))
                         (expenses db))] = [] then 0
          else SQL_SUM rt [a. Some a \<leftarrow> map amount
                 (filter (matches (the (userId e)) (the (category e))
                            (toISOString (startOfMonth (tz_offset rt) t))
                            (toISOString (endOfMonth (tz_offset rt) t)) (the (currency e)))
                         (expenses db))]) + the (amount e)) \<and>
   weeklyTotal rt (db\<lparr>expenses := map (\<lambda>r. r\<lparr>status := f r\<rparr>) (expenses db)\<rparr>) e t =
     weeklyTotal rt db e t \<and>
   monthlyTotal rt (db\<lparr>expenses := map (\<lambda>r. r\<lparr>status := f r\<rparr>) (expenses db)\<rparr>) e t =
     monthlyTotal rt db e t"
proof -
  have w: "weeklyTotal rt db e t =
     fl ((if [a. Some a \<leftarrow> map amount
                 (filter (matches (the (userId e)) (the (category e))
                            (toISOString (startOfWeek (tz_offset rt) t))
                            (toISOString (endOfWeek (tz_offset rt) t)) (the (currency e)))
                         (expenses db))] = [] then 0
          else SQL_SUM rt [a. Some a \<leftarrow> map amount
                 (filter (matches (the (userId e)) (the (category e))
                            (toISOString (startOfWeek (tz_offset rt) t))
                            (toISOString (endOfWeek (tz_offset rt) t)) (the (currency e)))
                         (expenses db))]) + the (amount e))"
    unfolding weeklyTotal_def sum_amount_def or_num_sql_sum js_add_def ..
  have m: "monthlyTotal rt db e t =
     fl ((if [a. Some a \<leftarrow> map amount
                 (filter (matches (the (userId e)) (the (category e))
                            (toISOString (startOfMonth (tz_offset rt) t))
                            (toISOString (endOfMonth (tz_offset rt) t)) (the (currency e)))
                         (expenses db))] = [] then 0
          else SQL_SUM rt [a. Some a \<leftarrow> map amount
                 (filter (matches (the (userId e)) (the (category e))
                            (toISOString (startOfMonth (tz_offset rt) t))
                            (toISOString (endOfMonth (tz_offset rt) t)) (the (currency e)))
                         (expenses db))]) + the (amount e))"
    unfolding monthlyTotal_def sum_amount_def or_num_sql_sum js_add_def ..
  have s: "weeklyTotal rt (db\<lparr>expenses := map (\<lambda>r. r\<lparr>status := f r\<rparr>) (expenses db)\<rparr>) e t =
     weeklyTotal rt db e t"
    "monthlyTotal rt (db\<lparr>expenses := map (\<lambda>r. r\<lparr>status := f r\<rparr>) (expenses db)\<rparr>) e t =
     monthlyTotal rt db e t"
    by (simp_all add: weeklyTotal_def monthlyTotal_def sum_amount_status)
  show ?thesis using w m s by blast
qed

text \<open>
  C5. The total of a window should count every stored expense of the user, category and
  currency dated within the window, bounds included. Evaluated with the server in UTC:
  for a new expense dated Wednesday 2024-03-13 the weekly window starts at
  \<^verbatim>\<open>2024-03-10T00:00:00.000Z\<close>, and a stored expense of 2000 dated \<^verbatim>\<open>2024-03-10\<close> is not
  counted, since as TEXT \<^verbatim>\<open>2024-03-10\<close> is smaller than the bound: the weekly total of a
  new expense of 1000 is 1000, and it is approved under a weekly limit of 2500. With the
  server at UTC+05:30 the same total is 3000.
\<close>

theorem first_day_not_summed:
  "Date_parse utc ''2024-03-13'' = Some 1710288000000 \<and>
   toISOString (startOfWeek (tz_offset utc) 1710288000000) = ''2024-03-10T00:00:00.000Z'' \<and>
   toISOString (endOfWeek (tz_offset utc) 1710288000000) = ''2024-03-16T23:59:59.999Z'' \<and>
   weeklyTotal utc
     (initial_database\<lparr>expenses :=
        [(travel ''e0'' 2000 ''2024-03-10'' ''Train to Pune'')\<lparr>status := Some ''approved''\<rparr>]\<rparr>)
     (travel ''e1'' 1000 ''2024-03-13'' ''Taxi'') 1710288000000 = 1000 \<and>
   snd (post_expenses utc
     (initial_database\<lparr>expenses :=
        [(travel ''e0'' 2000 ''2024-03-10'' ''Train to Pune'')\<lparr>status := Some ''approved''\<rparr>]\<rparr>)
     (travel ''e1'' 1000 ''2024-03-13'' ''Taxi'')) =
     Status201 (''e1'', ''approved'', ''Expense approved automatically (within policy limits)'') \<and>
   weeklyTotal ist
     (initial_database\<lparr>expenses :=
        [(travel ''e0'' 2000 ''2024-03-10'' ''Train to Pune'')\<lparr>status := Some ''approved''\<rparr>]\<rparr>)
     (travel ''e1'' 1000 ''2024-03-13'' ''Taxi'') 1710288000000 = 3000"
  by code_simp

subsection \<open>The currency converter\<close>

text \<open>
  C7. For every amount and every currency, converting from the currency to itself
  returns the amount as it is, and touches neither the cache nor the server.
\<close>

theorem convert_same_currency:
  "convertCurrency crt up srt ext ch db x C C = (Some x, ch, db)"
  by (simp add: convertCurrency_def)

theorem convert_same_currency_witness:
  "convertCurrency utc True utc usd_only empty_cache initial_database 100 EUR EUR =
     (Some 100, empty_cache, initial_database)"
  by (rule convert_same_currency)

lemma fetchAndStore_has_today:
  "filter (\<lambda>r. date_fetched r = today rt)
     (conversion_rates (fetchAndStoreCurrencyRates rt ext db)) \<noteq> []"
  by (auto simp: fetchAndStoreCurrencyRates_def fallbackRates_def rate_entry_def
      split: option.splits)









text \<open>
  The route of the exchange rates is never reached: a GET of \<^verbatim>\<open>/api/exchange-rates\<close> is
  given to the route \<^verbatim>\<open>*\<close>, and the request of the client for the rates fails whether
  or not the server is reached, with the database as it was.
\<close>

theorem exchange_rates_unreachable:
  "dispatch_get [''api'', ''exchange-rates''] = Some IndexHtml \<and>
   api_getExchangeRates up srt ext db = (db, None)"
  by (simp add: api_getExchangeRates_def dispatch_get_def get_routes_def)




subsection \<open>Amounts that are not positive\<close>

text \<open>
  C8, as the code has it. A submission of the form with an amount of zero or below is
  stopped by \<^verbatim>\<open>validateForm\<close>: \<^verbatim>\<open>handleSubmit\<close> reports the error of the amount and
  returns before \<^verbatim>\<open>addExpense\<close>, so the handler of POST /api/expenses is not reached, no
  decision is taken and the database is unchanged. The handler itself answers 400 and
  stores nothing for a body whose amount is missing or zero. A body with a negative
  amount and its other required fields is not answered with 400: it is decided like any
  other, and stored as \<^verbatim>\<open>pending\<close> when its id is new and its category has no policy.
\<close>

theorem nonpositive_amount_rejected:
  "(form_amount f \<le> 0 \<longrightarrow>
      handleSubmit crt uuids srt uid pols db f = (db, ValidationFailed (validateForm crt pols f)) \<and>
      error_amount (validateForm crt pols f) = Some ''Please enter a valid amount'') \<and>
   (amount body = None \<or> amount body = Some 0 \<longrightarrow>
      post_expenses srt db body = (db, Status400 ''Missing required expense fields'')) \<and>
   (amount body = Some a \<and> a < 0 \<and> id' body = Some i \<and> i \<noteq> [] \<and>
    userId body = Some u \<and> u \<noteq> [] \<and> currency body = Some cu \<and> cu \<noteq> [] \<and>
    date body = Some d \<and> d \<noteq> [] \<and> category body = Some c \<and> c \<noteq> [] \<and>
    description body = Some s \<and> s \<noteq> [] \<longrightarrow>
      (\<forall>m. snd (post_expenses srt db body) \<noteq> Status400 m) \<and>
      (Some i \<notin> id' ` set (expenses db) \<and> policies db c = None \<longrightarrow>
         snd (post_expenses srt db body) =
           Status201 (i, ''pending'', ''Expense submitted for approval'') \<and>
         map amount (expenses (fst (post_expenses srt db body))) =
           map amount (expenses db) @ [Some a]))"
proof -
  have 1: "form_amount f \<le> 0 \<longrightarrow>
      handleSubmit crt uuids srt uid pols db f = (db, ValidationFailed (validateForm crt pols f)) \<and>
      error_amount (validateForm crt pols f) = Some ''Please enter a valid amount''"
    by (simp add: handleSubmit_def validateForm_def Let_def)
  have 2: "amount body = None \<or> amount body = Some 0 \<longrightarrow>
      post_expenses srt db body = (db, Status400 ''Missing required expense fields'')"
    by (auto simp add: post_expenses_def required_missing_def falsy_num_def)
  have 3: "(\<forall>m. snd (post_expenses srt db body) \<noteq> Status400 m) \<and>
      (Some i \<notin> id' ` set (expenses db) \<and> policies db c = None \<longrightarrow>
         snd (post_expenses srt db body) =
           Status201 (i, ''pending'', ''Expense submitted for approval'') \<and>
         map amount (expenses (fst (post_expenses srt db body))) =
           map amount (expenses db) @ [Some a])"
    if h: "amount body = Some a \<and> a < 0 \<and> id' body = Some i \<and> i \<noteq> [] \<and>
    userId body = Some u \<and> u \<noteq> [] \<and> currency body = Some cu \<and> cu \<noteq> [] \<and>
    date body = Some d \<and> d \<noteq> [] \<and> category body = Some c \<and> c \<noteq> [] \<and>
    description body = Some s \<and> s \<noteq> []"
  proof -
    have req: "\<not> required_missing body"
      using h by (simp add: required_missing_def falsy_str_def falsy_num_def)
    have a: "snd (post_expenses srt db body) \<noteq> Status400 m" for m
      using req
      by (simp add: post_expenses_def Let_def split: option.splits prod.splits)
    have b: "snd (post_expenses srt db body) =
           Status201 (i, ''pending'', ''Expense submitted for approval'') \<and>
         map amount (expenses (fst (post_expenses srt db body))) =
           map amount (expenses db) @ [Some a]"
      if "Some i \<notin> id' ` set (expenses db)" "policies db c = None"
      using h req that
      by (simp add: post_expenses_def check_policy_def Let_def or_str_def response_message_def)
    show ?thesis using a b by blast
  qed
  show ?thesis using 1 2 3 by blast
qed

text \<open>
  The form with an amount of -5, a body with an amount of 0, and a body with an amount
  of -5 in a category without a policy.
\<close>

theorem nonpositive_amount_rejected_witness:
  "handleSubmit utc (\<lambda>k. ''e1'') utc ''u1'' default_policies initial_database
     (blank_form\<lparr>form_amount := - 5\<rparr>) =
     (initial_database,
      ValidationFailed (validateForm utc default_policies (blank_form\<lparr>form_amount := - 5\<rparr>))) \<and>
   error_amount (validateForm utc default_policies (blank_form\<lparr>form_amount := - 5\<rparr>)) =
     Some ''Please enter a valid amount'' \<and>
   post_expenses utc initial_database ((travel ''e1'' 0 ''2024-03-13'' ''Taxi'')) =
     (initial_database, Status400 ''Missing required expense fields'') \<and>
   snd (post_expenses utc (initial_database\<lparr>policies := Map.empty\<rparr>)
          (travel ''e1'' (- 5) ''2024-03-13'' ''Taxi'')) =
     Status201 (''e1'', ''pending'', ''Expense submitted for approval'') \<and>
   map amount (expenses (fst (post_expenses utc (initial_database\<lparr>policies := Map.empty\<rparr>)
          (travel ''e1'' (- 5) ''2024-03-13'' ''Taxi'')))) = [Some (- 5)]"
proof -
  have h1: "form_amount (blank_form\<lparr>form_amount := - 5\<rparr>) \<le> 0" by simp
  have h2: "amount (travel ''e1'' 0 ''2024-03-13'' ''Taxi'') = None \<or>
            amount (travel ''e1'' 0 ''2024-03-13'' ''Taxi'') = Some 0"
    by (simp add: travel_def)
  note a = nonpositive_amount_rejected[of "blank_form\<lparr>form_amount := - 5\<rparr>" utc "\<lambda>k. ''e1''" utc
      "''u1''" default_policies initial_database "travel ''e1'' 0 ''2024-03-13'' ''Taxi''"]
  note b = nonpositive_amount_rejected[where body = "travel ''e1'' (- 5) ''2024-03-13'' ''Taxi''"
      and a = "- 5" and i = "''e1''" and u = "''u1''" and cu = "''INR''" and d = "''2024-03-13''"
      and c = "''Travelling''" and s = "''Taxi''" and srt = utc
      and db = "initial_database\<lparr>policies := Map.empty\<rparr>"]
  from a b h1 h2 show ?thesis by (simp add: travel_def initial_database_def)
qed

text \<open>
  A body with an amount of -5 that reaches the handler is approved under the policy of
  its category and stored.
\<close>

theorem negative_amount_stored_counterexample:
  "snd (post_expenses utc initial_database (travel ''e1'' (- 5) ''2024-03-13'' ''Taxi'')) =
     Status201 (''e1'', ''approved'', ''Expense approved automatically (within policy limits)'') \<and>
   expenses (fst (post_expenses utc initial_database (travel ''e1'' (- 5) ''2024-03-13'' ''Taxi''))) =
     [(travel ''e1'' (- 5) ''2024-03-13'' ''Taxi'')\<lparr>status := Some ''approved''\<rparr>]"
  by code_simp

subsection \<open>Who may change an expense or a policy\<close>




subsection \<open>What an employee sees of their own expenses\<close>

text \<open>
  C10. A query for a user's expenses with role \<^verbatim>\<open>employee\<close> returns exactly the user's
  rows whose status is approved, rejected or pending: no returned row is flagged, even
  when the table holds flagged rows of that user, while the same query with role
  \<^verbatim>\<open>manager\<close> returns every row of the user.
\<close>

theorem employee_query_hides_flagged:
  "get_user_expenses db uid (Some ''employee'') =
     filter (\<lambda>e. userId e = Some uid \<and>
                 status e \<in> {Some ''approved'', Some ''rejected'', Some ''pending''})
            (expenses db)
   \<and> Some ''flagged'' \<notin> status ` set (get_user_expenses db uid (Some ''employee''))
   \<and> get_user_expenses db uid (Some ''manager'') =
       filter (\<lambda>e. userId e = Some uid) (expenses db)"
proof -
  have "employee_visible e \<longleftrightarrow>
      status e \<in> {Some ''approved'', Some ''rejected'', Some ''pending''}" for e
    by (auto simp: employee_visible_def)
  then show ?thesis
    by (auto simp: get_user_expenses_def)
qed

theorem employee_query_hides_flagged_witness:
  "map status (get_user_expenses
     (initial_database\<lparr>expenses :=
        [(travel ''e1'' 100 ''2024-03-11'' ''Bus'')\<lparr>status := Some ''flagged''\<rparr>,
         (travel ''e2'' 200 ''2024-03-12'' ''Train'')\<lparr>status := Some ''approved''\<rparr>]\<rparr>)
     ''u1'' (Some ''employee'')) = [Some ''approved''] \<and>
   map status (get_user_expenses
     (initial_database\<lparr>expenses :=
        [(travel ''e1'' 100 ''2024-03-11'' ''Bus'')\<lparr>status := Some ''flagged''\<rparr>,
         (travel ''e2'' 200 ''2024-03-12'' ''Train'')\<lparr>status := Some ''approved''\<rparr>]\<rparr>)
     ''u1'' (Some ''manager'')) = [Some ''flagged'', Some ''approved'']"
proof -
  note t = employee_query_hides_flagged[of
      "initial_database\<lparr>expenses :=
        [(travel ''e1'' 100 ''2024-03-11'' ''Bus'')\<lparr>status := Some ''flagged''\<rparr>,
         (travel ''e2'' 200 ''2024-03-12'' ''Train'')\<lparr>status := Some ''approved''\<rparr>]\<rparr>" "''u1''"]
  show ?thesis
    unfolding conjunct1[OF t] conjunct2[OF conjunct2[OF t]] by (simp add: travel_def)
qed

end
